theory Spec2Isabelle
  imports Main "HOL-Library.Word"
begin

section \<open>VisiFruit launcher: the embedding of visifruit\_launcher\_cpp.cpp\<close>

text \<open>
  The launcher is one C++ class, \<open>VisiFruitLauncher\<close>, driven by the window messages its
  window procedure receives. Its member functions are embedded as functions on a record
  of the object's fields together with the part of the window system they act on (the text
  of the log edit control, the timers of the main window, the posted quit message) and the
  list of every call made to the operating system. What the operating system answers is
  not determined by the program: it is a parameter \<open>os\<close>, a record of functions from the
  calls made so far to the answer of the next one.
\<close>

subsection \<open>Wide strings\<close>

text \<open>
  \<open>std::wstring\<close> on Windows is a sequence of 16-bit code units. \<open>L\<close> is the wide literal
  of an ASCII text; characters outside ASCII are written as their UTF-16 code units.
\<close>

type_synonym wchar_t = "16 word"
type_synonym wstring = "wchar_t list"

definition L :: "string \<Rightarrow> wstring" where
  "L s = map (\<lambda>c. word_of_nat (of_char c)) s"

text \<open>\<open>std::to_wstring(int)\<close>: a minus sign for a negative value, then the decimal digits.\<close>

fun digits10 :: "nat \<Rightarrow> wstring" where
  "digits10 n =
     (if n < 10 then [word_of_nat (48 + n)]
      else digits10 (n div 10) @ [word_of_nat (48 + n mod 10)])"

declare digits10.simps [simp del]

definition to_wstring :: "int \<Rightarrow> wstring" where
  "to_wstring i = (if i < 0 then L ''-'' @ digits10 (nat (- i)) else digits10 (nat i))"

text \<open>
  \<open>ss << std::setfill(c) << std::setw(w) << value\<close>: the text of the value, padded on the
  left with the fill character up to the width; a longer text is not cut.
\<close>

definition setfill_setw :: "wchar_t \<Rightarrow> nat \<Rightarrow> int \<Rightarrow> wstring" where
  "setfill_setw fill w v = replicate (w - length (to_wstring v)) fill @ to_wstring v"

definition CRLF :: wstring where
  "CRLF = [13, 10]"

text \<open>
  \<open>str.c_str()\<close> handed to the operating system as a zero-terminated string: what is read
  there is the text before the first NUL character.
\<close>

definition c_str :: "wstring \<Rightarrow> wstring" where
  "c_str str = takeWhile (\<lambda>c. c \<noteq> 0) str"

subsection \<open>Handles, structures and the calls to the operating system\<close>

type_synonym HANDLE = nat
type_synonym HWND = nat
type_synonym HDC = nat
type_synonym HBRUSH = nat
type_synonym HINTERNET = nat
type_synonym COLORREF = "nat \<times> nat \<times> nat"

definition NULL :: nat where
  "NULL = 0"

text \<open>\<open>INVALID_HANDLE_VALUE\<close> is \<open>(HANDLE)-1\<close>, all bits set in a 64-bit pointer.\<close>

definition INVALID_HANDLE_VALUE :: HANDLE where
  "INVALID_HANDLE_VALUE = 2 ^ 64 - 1"

definition RGB :: "nat \<Rightarrow> nat \<Rightarrow> nat \<Rightarrow> COLORREF" where
  "RGB r g b = (r, g, b)"

record tm =
  tm_sec :: int
  tm_min :: int
  tm_hour :: int

record PROCESS_INFORMATION =
  hProcess :: HANDLE
  hThread :: HANDLE
  dwProcessId :: nat
  dwThreadId :: nat

datatype show_cmd = SW_HIDE | SW_SHOW | SW_SHOWNORMAL

datatype mb_type = MB_OK_ICONERROR | MB_YESNO_ICONQUESTION

text \<open>
  The fields of \<open>SHELLEXECUTEINFO\<close> the launcher fills in; \<open>fMask\<close> is always
  \<open>SEE_MASK_NOCLOSEPROCESS\<close>, the owner window is the main window.
\<close>

record SHELLEXECUTEINFO =
  sei_hwnd :: HWND
  lpVerb :: wstring
  lpFile :: wstring
  lpParameters :: "wstring option"
  nShow :: show_cmd

datatype os_call =
    Call_CreateSolidBrush COLORREF
  | Call_DeleteObject HBRUSH
  | Call_InitCommonControlsEx
  | Call_RegisterClassEx
  | Call_CreateWindowEx
  | Call_CreateWindow wstring nat
  | Call_ShowWindow HWND
  | Call_UpdateWindow HWND
  | Call_localtime
  | Call_InternetOpen
  | Call_InternetOpenUrl HINTERNET wstring
  | Call_InternetCloseHandle HINTERNET
  | Call_SetWindowText HWND wstring
  | Call_InvalidateRect HWND
  | Call_GetFileAttributes wstring
  | Call_MessageBox HWND wstring wstring mb_type
  | Call_ShellExecuteEx SHELLEXECUTEINFO
  | Call_ShellExecute HWND wstring wstring show_cmd
  | Call_SetTextColor HDC COLORREF
  | Call_SetBkColor HDC COLORREF
  | Call_DestroyWindow HWND
  | Call_DefWindowProc nat
  | Call_TerminateProcess HANDLE
  | Call_CloseHandle HANDLE

text \<open>What one HTTP GET of WinINet comes to.\<close>

datatype http_outcome = Response nat | ConnectionFailed | TimedOut | ResolveFailed

text \<open>What \<open>ShellExecuteEx\<close> comes to: failure, or success with the process handle it puts
  into \<open>sei.hProcess\<close> (requested by \<open>SEE_MASK_NOCLOSEPROCESS\<close>).\<close>

datatype shell_result = LaunchFailed | Launched HANDLE

datatype button = IDOK | IDYES | IDNO

text \<open>
  The answers of the operating system, each a function of the calls made so far:
  handles returned by the window system (\<open>NULL\<close> on failure), the wall clock, whether a
  file exists, the outcome of a shell launch, of a session open and of an HTTP request,
  and the button pressed in a dialog.
\<close>

record os =
  os_CreateSolidBrush :: "os_call list \<Rightarrow> HBRUSH"
  os_RegisterClassEx :: "os_call list \<Rightarrow> nat"
  os_CreateWindowEx :: "os_call list \<Rightarrow> HWND"
  os_CreateWindow :: "os_call list \<Rightarrow> HWND"
  os_localtime :: "os_call list \<Rightarrow> tm"
  os_InternetOpen :: "os_call list \<Rightarrow> HINTERNET"
  os_http :: "os_call list \<Rightarrow> wstring \<Rightarrow> http_outcome"
  os_file_exists :: "os_call list \<Rightarrow> wstring \<Rightarrow> bool"
  os_ShellExecuteEx :: "os_call list \<Rightarrow> SHELLEXECUTEINFO \<Rightarrow> shell_result"
  os_MessageBox :: "os_call list \<Rightarrow> button"
  os_DefWindowProc :: "os_call list \<Rightarrow> nat"

subsection \<open>The log edit control\<close>

text \<open>
  The multi-line edit control behind \<open>hLogsTextBox\<close>: its text and its selection. The three
  messages \<open>AddLog\<close> sends it are functions on it: \<open>EM_SETSEL\<close> sets the selection, kept
  within the text, \<open>EM_REPLACESEL\<close> puts a text in place of the selection and the caret
  behind it, \<open>EM_SCROLLCARET\<close> changes no text. The control is taken to be there and to
  have no text limit.
\<close>

record edit =
  edit_text :: wstring
  edit_selStart :: nat
  edit_selEnd :: nat

definition GetWindowTextLength :: "edit \<Rightarrow> nat" where
  "GetWindowTextLength e = length (edit_text e)"

definition EM_SETSEL :: "nat \<Rightarrow> nat \<Rightarrow> edit \<Rightarrow> edit" where
  "EM_SETSEL a b e =
     e\<lparr>edit_selStart := min (min a b) (length (edit_text e)),
       edit_selEnd := min (max a b) (length (edit_text e))\<rparr>"

definition EM_REPLACESEL :: "wstring \<Rightarrow> edit \<Rightarrow> edit" where
  "EM_REPLACESEL str e =
     e\<lparr>edit_text := take (edit_selStart e) (edit_text e) @ str @ drop (edit_selEnd e) (edit_text e),
       edit_selStart := edit_selStart e + length str,
       edit_selEnd := edit_selStart e + length str\<rparr>"

definition EM_SCROLLCARET :: "edit \<Rightarrow> edit" where
  "EM_SCROLLCARET e = e"

subsection \<open>The launcher object\<close>

text \<open>
  The members of \<open>VisiFruitLauncher\<close> (\<open>serviceStatus\<close> is a \<open>std::map\<close>, \<open>processes\<close> a
  \<open>std::vector\<close>), then the window-system state its member functions change: the log
  control, the timers set on the main window (identifier to period in milliseconds), the
  exit code of a posted quit message, and the calls made so far.
\<close>

record launcher =
  hwnd :: HWND
  hLogsTextBox :: HWND
  hStatusBackend :: HWND
  hStatusFrontend :: HWND
  hStatusSystem :: HWND
  hBrushBackground :: HBRUSH
  hBrushGreen :: HBRUSH
  hBrushRed :: HBRUSH
  serviceStatus :: "string \<rightharpoonup> bool"
  processes :: "PROCESS_INFORMATION list"
  logsTextBox :: edit
  timers :: "nat \<rightharpoonup> nat"
  quitPosted :: "int option"
  calls :: "os_call list"

definition call :: "os_call \<Rightarrow> launcher \<Rightarrow> launcher" where
  "call c s = s\<lparr>calls := calls s @ [c]\<rparr>"

text \<open>\<open>std::map::operator[]\<close>: a missing key is inserted with the value \<open>false\<close>.\<close>

definition map_index :: "(string \<rightharpoonup> bool) \<Rightarrow> string \<Rightarrow> bool \<times> (string \<rightharpoonup> bool)" where
  "map_index m k = (case m k of Some b \<Rightarrow> (b, m) | None \<Rightarrow> (False, m(k \<mapsto> False)))"

definition SetTimer :: "nat \<Rightarrow> nat \<Rightarrow> launcher \<Rightarrow> launcher" where
  "SetTimer timerId elapse s = s\<lparr>timers := (timers s)(timerId \<mapsto> elapse)\<rparr>"

definition KillTimer :: "nat \<Rightarrow> launcher \<Rightarrow> launcher" where
  "KillTimer timerId s = s\<lparr>timers := (timers s)(timerId := None)\<rparr>"

definition PostQuitMessage :: "int \<Rightarrow> launcher \<Rightarrow> launcher" where
  "PostQuitMessage code s = s\<lparr>quitPosted := Some code\<rparr>"

subsection \<open>AddLog\<close>

text \<open>
  The stream text is the time, the message and CR LF. \<open>EM_REPLACESEL\<close> gets it as
  \<open>ss.str().c_str()\<close>, so the control reads it up to its first NUL character.
\<close>

definition timestamp :: "tm \<Rightarrow> wstring" where
  "timestamp t =
     L ''['' @ setfill_setw 48 2 (tm_hour t) @ L '':'' @ setfill_setw 48 2 (tm_min t)
       @ L '':'' @ setfill_setw 48 2 (tm_sec t) @ L ''] ''"

definition AddLog :: "os \<Rightarrow> wstring \<Rightarrow> launcher \<Rightarrow> launcher" where
  "AddLog w message s =
     (let t = os_localtime w (calls s);
          s1 = call Call_localtime s;
          ss = timestamp t @ message @ CRLF;
          len = GetWindowTextLength (logsTextBox s1);
          e1 = EM_SETSEL len len (logsTextBox s1);
          e2 = EM_REPLACESEL (c_str ss) e1;
          e3 = EM_SCROLLCARET e2
      in s1\<lparr>logsTextBox := e3\<rparr>)"

subsection \<open>The calls to the operating system that return an answer\<close>

definition CreateSolidBrush :: "os \<Rightarrow> COLORREF \<Rightarrow> launcher \<Rightarrow> HBRUSH \<times> launcher" where
  "CreateSolidBrush w c s = (os_CreateSolidBrush w (calls s), call (Call_CreateSolidBrush c) s)"

definition RegisterClassEx :: "os \<Rightarrow> launcher \<Rightarrow> nat \<times> launcher" where
  "RegisterClassEx w s = (os_RegisterClassEx w (calls s), call Call_RegisterClassEx s)"

definition CreateWindowEx :: "os \<Rightarrow> launcher \<Rightarrow> HWND \<times> launcher" where
  "CreateWindowEx w s = (os_CreateWindowEx w (calls s), call Call_CreateWindowEx s)"

text \<open>\<open>CreateWindow\<close> of a child control: its window class and its control identifier
  (\<open>0\<close> for \<open>NULL\<close>); label, style and position are left out.\<close>

definition CreateWindow :: "os \<Rightarrow> wstring \<Rightarrow> nat \<Rightarrow> launcher \<Rightarrow> HWND \<times> launcher" where
  "CreateWindow w cls ident s = (os_CreateWindow w (calls s), call (Call_CreateWindow cls ident) s)"

definition InternetOpen :: "os \<Rightarrow> launcher \<Rightarrow> HINTERNET \<times> launcher" where
  "InternetOpen w s = (os_InternetOpen w (calls s), call Call_InternetOpen s)"

text \<open>
  \<open>InternetOpenUrl\<close> on an http URL sends one GET and waits for the response. WinINet
  returns a handle when a response arrived, whatever its status code, and \<open>NULL\<close> when the
  name did not resolve, the connection failed or the request timed out. The launcher only
  tests the handle against \<open>NULL\<close> and closes it; the handle of a response stands as
  some number other than \<open>NULL\<close>.
\<close>

definition InternetOpenUrl :: "os \<Rightarrow> HINTERNET \<Rightarrow> wstring \<Rightarrow> launcher \<Rightarrow> HINTERNET \<times> launcher" where
  "InternetOpenUrl w hInternet url s =
     ((case os_http w (calls s) url of
         Response code \<Rightarrow> Suc (length (calls s))
       | ConnectionFailed \<Rightarrow> NULL
       | TimedOut \<Rightarrow> NULL
       | ResolveFailed \<Rightarrow> NULL),
      call (Call_InternetOpenUrl hInternet url) s)"

definition InternetCloseHandle :: "HINTERNET \<Rightarrow> launcher \<Rightarrow> launcher" where
  "InternetCloseHandle h s = call (Call_InternetCloseHandle h) s"

text \<open>\<open>GetFileAttributes(path) != INVALID_FILE_ATTRIBUTES\<close>: the file is there.\<close>

definition GetFileAttributes_valid :: "os \<Rightarrow> wstring \<Rightarrow> launcher \<Rightarrow> bool \<times> launcher" where
  "GetFileAttributes_valid w path s = (os_file_exists w (calls s) path, call (Call_GetFileAttributes path) s)"

definition MessageBox :: "os \<Rightarrow> HWND \<Rightarrow> wstring \<Rightarrow> wstring \<Rightarrow> mb_type \<Rightarrow> launcher \<Rightarrow> button \<times> launcher" where
  "MessageBox w owner lpText caption ty s =
     (os_MessageBox w (calls s), call (Call_MessageBox owner lpText caption ty) s)"

definition ShellExecuteEx :: "os \<Rightarrow> SHELLEXECUTEINFO \<Rightarrow> launcher \<Rightarrow> shell_result \<times> launcher" where
  "ShellExecuteEx w sei s = (os_ShellExecuteEx w (calls s) sei, call (Call_ShellExecuteEx sei) s)"

definition DefWindowProc :: "os \<Rightarrow> nat \<Rightarrow> launcher \<Rightarrow> nat \<times> launcher" where
  "DefWindowProc w m s = (os_DefWindowProc w (calls s), call (Call_DefWindowProc m) s)"

subsection \<open>Identifiers and literals\<close>

definition ID_START_ALL :: nat where "ID_START_ALL = 1001"
definition ID_STOP_ALL :: nat where "ID_STOP_ALL = 1002"
definition ID_START_BACKEND :: nat where "ID_START_BACKEND = 1003"
definition ID_START_FRONTEND :: nat where "ID_START_FRONTEND = 1004"
definition ID_START_SYSTEM :: nat where "ID_START_SYSTEM = 1005"
definition ID_OPEN_FRONTEND :: nat where "ID_OPEN_FRONTEND = 1006"
definition ID_OPEN_BACKEND :: nat where "ID_OPEN_BACKEND = 1007"
definition ID_OPEN_SYSTEM :: nat where "ID_OPEN_SYSTEM = 1008"
definition ID_LOGS_TEXTBOX :: nat where "ID_LOGS_TEXTBOX = 1009"
definition ID_STATUS_BACKEND :: nat where "ID_STATUS_BACKEND = 1010"
definition ID_STATUS_FRONTEND :: nat where "ID_STATUS_FRONTEND = 1011"
definition ID_STATUS_SYSTEM :: nat where "ID_STATUS_SYSTEM = 1012"

definition TIMER_STATUS_UPDATE :: nat where "TIMER_STATUS_UPDATE = 2001"

text \<open>The symbols that open the log messages, as UTF-16 code units: rocket, cross mark,
  check mark, stop button, wrench, globe, and the bullet of the indicators.\<close>

definition ROCKET :: wstring where "ROCKET = [0xD83D, 0xDE80]"
definition CROSS_MARK :: wstring where "CROSS_MARK = [0x274C]"
definition CHECK_MARK :: wstring where "CHECK_MARK = [0x2705]"
definition STOP_BUTTON :: wstring where "STOP_BUTTON = [0x23F9, 0xFE0F]"
definition WRENCH :: wstring where "WRENCH = [0xD83D, 0xDD27]"
definition GLOBE :: wstring where "GLOBE = [0xD83C, 0xDF10]"
definition BULLET :: wstring where "BULLET = [0x25CF]"

definition GREEN :: COLORREF where "GREEN = RGB 76 175 80"
definition RED :: COLORREF where "RED = RGB 244 67 54"
definition DARK_GREY :: COLORREF where "DARK_GREY = RGB 43 43 43"
definition WHITE :: COLORREF where "WHITE = RGB 255 255 255"

subsection \<open>Probing a port and polling the three services\<close>

definition health_url :: "int \<Rightarrow> wstring" where
  "health_url port = L ''http://localhost:'' @ to_wstring port @ L ''/health''"

definition CheckPort :: "os \<Rightarrow> int \<Rightarrow> launcher \<Rightarrow> bool \<times> launcher" where
  "CheckPort w port s =
     (let (hInternet, s1) = InternetOpen w s in
      if hInternet = NULL then (False, s1)
      else
        let url = health_url port;
            (hUrl, s2) = InternetOpenUrl w hInternet (c_str url) s1;
            isRunning = (hUrl \<noteq> NULL);
            s3 = (if hUrl \<noteq> NULL then InternetCloseHandle hUrl s2 else s2);
            s4 = InternetCloseHandle hInternet s3
        in (isRunning, s4))"

definition UpdateStatusIndicator :: "HWND \<Rightarrow> bool \<Rightarrow> launcher \<Rightarrow> launcher" where
  "UpdateStatusIndicator hStatus isRunning s =
     (let s1 = (if isRunning then call (Call_SetWindowText hStatus BULLET) s
                else call (Call_SetWindowText hStatus BULLET) s)
      in call (Call_InvalidateRect hStatus) s1)"

definition UpdateServiceStatus :: "os \<Rightarrow> launcher \<Rightarrow> launcher" where
  "UpdateServiceStatus w s =
     (let (b, s1) = CheckPort w 8001 s;
          s2 = s1\<lparr>serviceStatus := (serviceStatus s1)(''backend'' \<mapsto> b)\<rparr>;
          (f, s3) = CheckPort w 3000 s2;
          s4 = s3\<lparr>serviceStatus := (serviceStatus s3)(''frontend'' \<mapsto> f)\<rparr>;
          (y, s5) = CheckPort w 8000 s4;
          s6 = s5\<lparr>serviceStatus := (serviceStatus s5)(''system'' \<mapsto> y)\<rparr>;
          (rb, m1) = map_index (serviceStatus s6) ''backend'';
          s7 = UpdateStatusIndicator (hStatusBackend s6) rb (s6\<lparr>serviceStatus := m1\<rparr>);
          (rf, m2) = map_index (serviceStatus s7) ''frontend'';
          s8 = UpdateStatusIndicator (hStatusFrontend s7) rf (s7\<lparr>serviceStatus := m2\<rparr>);
          (ry, m3) = map_index (serviceStatus s8) ''system''
      in UpdateStatusIndicator (hStatusSystem s8) ry (s8\<lparr>serviceStatus := m3\<rparr>))"

subsection \<open>Starting and stopping\<close>

definition MSG_START_ALL :: wstring where
  "MSG_START_ALL = ROCKET @ L '' Iniciando sistema completo...''"
definition MSG_NO_MARKER :: wstring where
  "MSG_NO_MARKER = CROSS_MARK @ L '' Error: No se encuentra main_etiquetadora.py''"
definition MSG_NOT_ROOT :: wstring where
  "MSG_NOT_ROOT = L ''No est'' @ [0xE1] @ L ''s en la ra'' @ [0xED] @ L ''z del proyecto VisiFruit''"
definition MSG_STARTED_ALL :: wstring where
  "MSG_STARTED_ALL = CHECK_MARK @ L '' Sistema completo iniciado''"
definition MSG_START_ALL_FAILED :: wstring where
  "MSG_START_ALL_FAILED = CROSS_MARK @ L '' Error iniciando sistema completo''"
definition MSG_STOPPING :: wstring where
  "MSG_STOPPING = STOP_BUTTON @ L '' Deteniendo todos los servicios...''"
definition MSG_STOPPED :: wstring where
  "MSG_STOPPED = CHECK_MARK @ L '' Servicios detenidos''"

definition start_all_sei :: "HWND \<Rightarrow> SHELLEXECUTEINFO" where
  "start_all_sei h =
     \<lparr>sei_hwnd = h, lpVerb = L ''open'', lpFile = L ''start_sistema_completo.bat'',
      lpParameters = None, nShow = SW_SHOW\<rparr>"

definition StartCompleteSystem :: "os \<Rightarrow> launcher \<Rightarrow> launcher" where
  "StartCompleteSystem w s =
     (let s1 = AddLog w MSG_START_ALL s;
          (present, s2) = GetFileAttributes_valid w (L ''main_etiquetadora.py'') s1
      in if \<not> present then
           let s3 = AddLog w MSG_NO_MARKER s2;
               (b, s4) = MessageBox w (hwnd s3) MSG_NOT_ROOT (L ''Error'') MB_OK_ICONERROR s3
           in s4
         else
           let (r, s3) = ShellExecuteEx w (start_all_sei (hwnd s2)) s2
           in (case r of
                 Launched h \<Rightarrow> SetTimer 3001 8000 (AddLog w MSG_STARTED_ALL s3)
               | LaunchFailed \<Rightarrow> AddLog w MSG_START_ALL_FAILED s3))"

definition kill_cmd :: "int \<Rightarrow> wstring" where
  "kill_cmd port =
     L ''taskkill /F /FI '' @ [0x22] @ L ''PID eq $(Get-NetTCPConnection -LocalPort ''
       @ to_wstring port @ L '' | Select-Object -ExpandProperty OwningProcess)'' @ [0x22]"

definition kill_sei :: "HWND \<Rightarrow> int \<Rightarrow> SHELLEXECUTEINFO" where
  "kill_sei h port =
     \<lparr>sei_hwnd = h, lpVerb = L ''open'', lpFile = L ''powershell'',
      lpParameters = Some (c_str (kill_cmd port)), nShow = SW_HIDE\<rparr>"

text \<open>The body of the loop over \<open>ports\<close>: the result of \<open>ShellExecuteEx\<close> is dropped.\<close>

fun stop_ports :: "os \<Rightarrow> int list \<Rightarrow> launcher \<Rightarrow> launcher" where
  "stop_ports w [] s = s"
| "stop_ports w (port # ports) s =
     (let (r, s1) = ShellExecuteEx w (kill_sei (hwnd s) port) s in stop_ports w ports s1)"

definition StopAllServices :: "os \<Rightarrow> launcher \<Rightarrow> launcher" where
  "StopAllServices w s =
     (let s1 = AddLog w MSG_STOPPING s;
          ports = [8000, 8001, 3000];
          s2 = stop_ports w ports s1
      in AddLog w MSG_STOPPED s2)"

definition service_sei :: "HWND \<Rightarrow> wstring \<Rightarrow> SHELLEXECUTEINFO" where
  "service_sei h scriptName =
     \<lparr>sei_hwnd = h, lpVerb = L ''open'', lpFile = c_str scriptName, lpParameters = None,
      nShow = SW_SHOW\<rparr>"

definition StartIndividualService :: "os \<Rightarrow> wstring \<Rightarrow> wstring \<Rightarrow> launcher \<Rightarrow> launcher" where
  "StartIndividualService w service scriptName s =
     (let s1 = AddLog w (WRENCH @ L '' Iniciando '' @ service @ L ''...'') s;
          (r, s2) = ShellExecuteEx w (service_sei (hwnd s1) scriptName) s1
      in (case r of
            Launched h \<Rightarrow> AddLog w (CHECK_MARK @ L '' '' @ service @ L '' iniciado'') s2
          | LaunchFailed \<Rightarrow> AddLog w (CROSS_MARK @ L '' Error iniciando '' @ service) s2))"

definition OpenURL :: "os \<Rightarrow> wstring \<Rightarrow> launcher \<Rightarrow> launcher" where
  "OpenURL w url s =
     (let s1 = call (Call_ShellExecute (hwnd s) (L ''open'') (c_str url) SW_SHOWNORMAL) s
      in AddLog w (GLOBE @ L '' Abierto: '' @ url) s1)"

subsection \<open>Dispatch\<close>

definition HandleCommand :: "os \<Rightarrow> nat \<Rightarrow> launcher \<Rightarrow> launcher" where
  "HandleCommand w commandId s =
     (if commandId = ID_START_ALL then StartCompleteSystem w s
      else if commandId = ID_STOP_ALL then StopAllServices w s
      else if commandId = ID_START_BACKEND then
        StartIndividualService w (L ''Backend'') (L ''start_backend.bat'') s
      else if commandId = ID_START_FRONTEND then
        StartIndividualService w (L ''Frontend'') (L ''start_frontend.bat'') s
      else if commandId = ID_START_SYSTEM then
        StartIndividualService w (L ''Sistema Principal'') (L ''main_etiquetadora.py'') s
      else if commandId = ID_OPEN_FRONTEND then OpenURL w (L ''http://localhost:3000'') s
      else if commandId = ID_OPEN_BACKEND then OpenURL w (L ''http://localhost:8001/api/docs'') s
      else if commandId = ID_OPEN_SYSTEM then OpenURL w (L ''http://localhost:8000'') s
      else s)"

definition HandleTimer :: "os \<Rightarrow> nat \<Rightarrow> launcher \<Rightarrow> launcher" where
  "HandleTimer w timerId s =
     (if timerId = TIMER_STATUS_UPDATE then UpdateServiceStatus w s
      else if timerId = 3001 then KillTimer 3001 (OpenURL w (L ''http://localhost:3000'') s)
      else s)"

text \<open>
  The messages the window procedure tells apart, with the parameters it reads:
  \<open>wParam\<close> of a command and of a timer, the device context and the control of a colour
  request. Every other message (\<open>WM_OTHER\<close> with its number) goes to \<open>DefWindowProc\<close>.
  \<open>StaticWndProc\<close> passes each message of the main window on to \<open>WndProc\<close> and has no
  definition of its own here.
\<close>

datatype msg =
    WM_COMMAND nat
  | WM_TIMER nat
  | WM_CTLCOLORSTATIC HDC HWND
  | WM_CLOSE
  | WM_DESTROY
  | WM_OTHER nat

definition LOWORD :: "nat \<Rightarrow> nat" where
  "LOWORD wParam = wParam mod 65536"

text \<open>One branch of the colour request: the text colour follows the status flag read with
  \<open>operator[]\<close>, the background is dark grey, the result is the background brush.\<close>

definition colour_indicator :: "HDC \<Rightarrow> string \<Rightarrow> launcher \<Rightarrow> nat \<times> launcher" where
  "colour_indicator hdc name s =
     (let (b, m) = map_index (serviceStatus s) name;
          s1 = s\<lparr>serviceStatus := m\<rparr>;
          s2 = call (Call_SetTextColor hdc (if b then GREEN else RED)) s1;
          s3 = call (Call_SetBkColor hdc DARK_GREY) s2
      in (hBrushBackground s3, s3))"

definition on_WM_DESTROY :: "launcher \<Rightarrow> launcher" where
  "on_WM_DESTROY s = PostQuitMessage 0 (KillTimer TIMER_STATUS_UPDATE s)"

text \<open>\<open>DestroyWindow\<close> sends \<open>WM_DESTROY\<close> to the window procedure before it returns, and
  the window system drops the timers of the destroyed window.\<close>

definition DestroyWindow :: "launcher \<Rightarrow> launcher" where
  "DestroyWindow s =
     (let s1 = call (Call_DestroyWindow (hwnd s)) s;
          s2 = on_WM_DESTROY s1
      in s2\<lparr>timers := Map.empty\<rparr>)"

definition MSG_CONFIRM_CLOSE :: wstring where
  "MSG_CONFIRM_CLOSE =
     [0xBF] @ L ''Est'' @ [0xE1] @ L ''s seguro de que quieres cerrar el launcher?''"

definition WndProc :: "os \<Rightarrow> msg \<Rightarrow> launcher \<Rightarrow> nat \<times> launcher" where
  "WndProc w m s =
     (case m of
        WM_COMMAND wParam \<Rightarrow> (0, HandleCommand w (LOWORD wParam) s)
      | WM_TIMER wParam \<Rightarrow> (0, HandleTimer w wParam s)
      | WM_CTLCOLORSTATIC hdc hControl \<Rightarrow>
          (if hControl = hStatusBackend s then colour_indicator hdc ''backend'' s
           else if hControl = hStatusFrontend s then colour_indicator hdc ''frontend'' s
           else if hControl = hStatusSystem s then colour_indicator hdc ''system'' s
           else
             let s1 = call (Call_SetTextColor hdc WHITE) s;
                 s2 = call (Call_SetBkColor hdc DARK_GREY) s1
             in (hBrushBackground s2, s2))
      | WM_CLOSE \<Rightarrow>
          (let (b, s1) = MessageBox w (hwnd s) MSG_CONFIRM_CLOSE (L ''Confirmar cierre'')
                           MB_YESNO_ICONQUESTION s
           in (0, if b = IDYES then DestroyWindow s1 else s1))
      | WM_DESTROY \<Rightarrow> (0, on_WM_DESTROY s)
      | WM_OTHER n \<Rightarrow> DefWindowProc w n s)"

subsection \<open>Construction, initialisation, destruction\<close>

text \<open>
  The state before \<open>WinMain\<close> runs. The constructor leaves the five window handles
  unassigned; nothing reads them before \<open>Initialize\<close> assigns them, and they stand as
  \<open>NULL\<close> until then.
\<close>

definition process_start :: launcher where
  "process_start =
     \<lparr>hwnd = NULL, hLogsTextBox = NULL, hStatusBackend = NULL, hStatusFrontend = NULL,
      hStatusSystem = NULL, hBrushBackground = NULL, hBrushGreen = NULL, hBrushRed = NULL,
      serviceStatus = Map.empty, processes = [],
      logsTextBox = \<lparr>edit_text = [], edit_selStart = 0, edit_selEnd = 0\<rparr>,
      timers = Map.empty, quitPosted = None, calls = []\<rparr>"

definition VisiFruitLauncher_ctor :: "os \<Rightarrow> launcher \<Rightarrow> launcher" where
  "VisiFruitLauncher_ctor w s =
     (let s1 = s\<lparr>serviceStatus := (serviceStatus s)(''backend'' \<mapsto> False)\<rparr>;
          s2 = s1\<lparr>serviceStatus := (serviceStatus s1)(''frontend'' \<mapsto> False)\<rparr>;
          s3 = s2\<lparr>serviceStatus := (serviceStatus s2)(''system'' \<mapsto> False)\<rparr>;
          (bg, s4) = CreateSolidBrush w DARK_GREY s3;
          s5 = s4\<lparr>hBrushBackground := bg\<rparr>;
          (gr, s6) = CreateSolidBrush w GREEN s5;
          s7 = s6\<lparr>hBrushGreen := gr\<rparr>;
          (rd, s8) = CreateSolidBrush w RED s7
      in s8\<lparr>hBrushRed := rd\<rparr>)"

text \<open>The loop of the destructor over \<open>processes\<close>.\<close>

fun terminate_processes :: "PROCESS_INFORMATION list \<Rightarrow> launcher \<Rightarrow> launcher" where
  "terminate_processes [] s = s"
| "terminate_processes (p # ps) s =
     terminate_processes ps
       (if hProcess p \<noteq> INVALID_HANDLE_VALUE then
          call (Call_CloseHandle (hThread p))
            (call (Call_CloseHandle (hProcess p)) (call (Call_TerminateProcess (hProcess p)) s))
        else s)"

definition VisiFruitLauncher_dtor :: "launcher \<Rightarrow> launcher" where
  "VisiFruitLauncher_dtor s =
     (let s1 = call (Call_DeleteObject (hBrushBackground s)) s;
          s2 = call (Call_DeleteObject (hBrushGreen s1)) s1;
          s3 = call (Call_DeleteObject (hBrushRed s2)) s2
      in terminate_processes (processes s3) s3)"

definition STATIC :: wstring where "STATIC = L ''STATIC''"
definition BUTTON :: wstring where "BUTTON = L ''BUTTON''"
definition EDIT :: wstring where "EDIT = L ''EDIT''"

text \<open>Child controls whose handle is not kept.\<close>

fun create_unnamed :: "os \<Rightarrow> (wstring \<times> nat) list \<Rightarrow> launcher \<Rightarrow> launcher" where
  "create_unnamed w [] s = s"
| "create_unnamed w ((cls, ident) # cs) s = create_unnamed w cs (snd (CreateWindow w cls ident s))"

definition CreateControls :: "os \<Rightarrow> launcher \<Rightarrow> launcher" where
  "CreateControls w s =
     (let s1 = create_unnamed w
                 [(STATIC, 0), (STATIC, 0), (STATIC, 0),
                  (BUTTON, ID_START_ALL), (BUTTON, ID_STOP_ALL),
                  (BUTTON, ID_START_BACKEND), (BUTTON, ID_START_FRONTEND), (BUTTON, ID_START_SYSTEM),
                  (STATIC, 0), (STATIC, 0)] s;
          (hb, s2) = CreateWindow w STATIC ID_STATUS_BACKEND s1;
          s3 = s2\<lparr>hStatusBackend := hb\<rparr>;
          s4 = create_unnamed w [(STATIC, 0)] s3;
          (hf, s5) = CreateWindow w STATIC ID_STATUS_FRONTEND s4;
          s6 = s5\<lparr>hStatusFrontend := hf\<rparr>;
          s7 = create_unnamed w [(STATIC, 0)] s6;
          (hs, s8) = CreateWindow w STATIC ID_STATUS_SYSTEM s7;
          s9 = s8\<lparr>hStatusSystem := hs\<rparr>;
          s10 = create_unnamed w
                  [(STATIC, 0), (BUTTON, ID_OPEN_FRONTEND), (BUTTON, ID_OPEN_BACKEND),
                   (BUTTON, ID_OPEN_SYSTEM), (STATIC, 0)] s9;
          (hl, s11) = CreateWindow w EDIT ID_LOGS_TEXTBOX s10
      in s11\<lparr>hLogsTextBox := hl\<rparr>)"

definition MSG_STARTED :: wstring where
  "MSG_STARTED = ROCKET @ L '' VisiFruit Launcher (C++ Native) iniciado''"

definition Initialize :: "os \<Rightarrow> launcher \<Rightarrow> bool \<times> launcher" where
  "Initialize w s =
     (let (atom, s1) = RegisterClassEx w s in
      if atom = 0 then (False, s1)
      else
        let (h, s2) = CreateWindowEx w s1;
            s3 = s2\<lparr>hwnd := h\<rparr>
        in if h = NULL then (False, s3)
           else
             let s4 = CreateControls w s3;
                 s5 = call (Call_ShowWindow (hwnd s4)) s4;
                 s6 = call (Call_UpdateWindow (hwnd s5)) s5;
                 s7 = SetTimer TIMER_STATUS_UPDATE 3000 s6;
                 s8 = AddLog w MSG_STARTED s7
             in (True, s8))"

subsection \<open>The message loop and the entry point\<close>

text \<open>
  \<open>Run\<close> on the messages that arrive for the window, in order. \<open>GetMessage\<close> returns zero
  once a quit message was posted, and the loop returns its exit code; when the messages
  run out before that, the loop is still waiting and there is no exit code (\<open>None\<close>).
  A quit message comes from \<open>PostQuitMessage\<close> only.
\<close>

fun Run :: "os \<Rightarrow> msg list \<Rightarrow> launcher \<Rightarrow> int option \<times> launcher" where
  "Run w ms s =
     (case quitPosted s of
        Some code \<Rightarrow> (Some code, s)
      | None \<Rightarrow>
          (case ms of
             [] \<Rightarrow> (None, s)
           | m # ms' \<Rightarrow> Run w ms' (snd (WndProc w m s))))"

declare Run.simps [simp del]

definition MSG_INIT_FAILED :: wstring where
  "MSG_INIT_FAILED = L ''Error inicializando el launcher''"

text \<open>\<open>WinMain\<close>: the exit code, if the process exits on these messages, and the final
  state; the launcher object is destroyed on both ways out.\<close>

definition WinMain :: "os \<Rightarrow> msg list \<Rightarrow> int option \<times> launcher" where
  "WinMain w ms =
     (let s0 = call Call_InitCommonControlsEx process_start;
          launcher = VisiFruitLauncher_ctor w s0;
          (ok, s1) = Initialize w launcher
      in if \<not> ok then
           let (b, s2) = MessageBox w NULL MSG_INIT_FAILED (L ''Error'') MB_OK_ICONERROR s1
           in (Some 1, VisiFruitLauncher_dtor s2)
         else
           (case Run w ms s1 of
              (Some code, s2) \<Rightarrow> (Some code, VisiFruitLauncher_dtor s2)
            | (None, s2) \<Rightarrow> (None, s2)))"

text \<open>The messages handled one after the other, without the loop's exit test.\<close>

fun run :: "os \<Rightarrow> msg list \<Rightarrow> launcher \<Rightarrow> launcher" where
  "run w [] s = s"
| "run w (m # ms) s = run w ms (snd (WndProc w m s))"

subsection \<open>What is observed of a run\<close>

text \<open>The text of the log control.\<close>

definition log_text :: "launcher \<Rightarrow> wstring" where
  "log_text s = edit_text (logsTextBox s)"

text \<open>An edit control after a text was put at its end, the caret behind it.\<close>

definition appended :: "wstring \<Rightarrow> edit \<Rightarrow> edit" where
  "appended str e =
     \<lparr>edit_text = edit_text e @ str,
      edit_selStart = length (edit_text e) + length str,
      edit_selEnd = length (edit_text e) + length str\<rparr>"

text \<open>
  The lines of a text: a line ends at each CR LF, and what follows the last CR LF, if
  anything, is a last line without a line end. \<open>split_crlf\<close> carries the line read so far.
\<close>

fun split_crlf :: "wstring \<Rightarrow> wstring \<Rightarrow> wstring list" where
  "split_crlf cur [] = (if cur = [] then [] else [cur])"
| "split_crlf cur [c] = [cur @ [c]]"
| "split_crlf cur (c # d # cs) =
     (if c = 13 \<and> d = 10 then cur # split_crlf [] cs else split_crlf (cur @ [c]) (d # cs))"

definition log_lines :: "wstring \<Rightarrow> wstring list" where
  "log_lines str = split_crlf [] str"

text \<open>A text that holds a CR LF; a text that is empty or ends with one.\<close>

fun has_crlf :: "wstring \<Rightarrow> bool" where
  "has_crlf (c # d # cs) = ((c = 13 \<and> d = 10) \<or> has_crlf (d # cs))"
| "has_crlf cs = False"

definition line_ended :: "wstring \<Rightarrow> bool" where
  "line_ended str = (str = [] \<or> (2 \<le> length str \<and> drop (length str - 2) str = CRLF))"

text \<open>A number below one hundred in two decimal digits, as the specification writes the
  fields of \<open>HH:MM:SS\<close>.\<close>

definition two_digits :: "nat \<Rightarrow> wstring" where
  "two_digits n = [word_of_nat (48 + n div 10), word_of_nat (48 + n mod 10)]"

text \<open>
  Read off the calls: the shell launches (\<open>ShellExecuteEx\<close>), the URLs requested with an
  HTTP GET, the dialogs shown, the URLs opened in the browser (\<open>ShellExecute\<close>), and the
  process handles terminated.
\<close>

fun launches :: "os_call list \<Rightarrow> SHELLEXECUTEINFO list" where
  "launches [] = []"
| "launches (Call_ShellExecuteEx sei # cs) = sei # launches cs"
| "launches (c # cs) = launches cs"

fun http_gets :: "os_call list \<Rightarrow> wstring list" where
  "http_gets [] = []"
| "http_gets (Call_InternetOpenUrl h url # cs) = url # http_gets cs"
| "http_gets (c # cs) = http_gets cs"

fun dialogs :: "os_call list \<Rightarrow> (HWND \<times> wstring \<times> wstring \<times> mb_type) list" where
  "dialogs [] = []"
| "dialogs (Call_MessageBox h lpText caption ty # cs) = (h, lpText, caption, ty) # dialogs cs"
| "dialogs (c # cs) = dialogs cs"

fun browser_opens :: "os_call list \<Rightarrow> wstring list" where
  "browser_opens [] = []"
| "browser_opens (Call_ShellExecute h verb url sw # cs) = url # browser_opens cs"
| "browser_opens (c # cs) = browser_opens cs"

fun terminated :: "os_call list \<Rightarrow> HANDLE list" where
  "terminated [] = []"
| "terminated (Call_TerminateProcess h # cs) = h # terminated cs"
| "terminated (c # cs) = terminated cs"

text \<open>The process handles that successful launches handed out, given the answers of the
  operating system and the calls before them.\<close>

fun created_handles :: "os \<Rightarrow> os_call list \<Rightarrow> os_call list \<Rightarrow> HANDLE list" where
  "created_handles w before [] = []"
| "created_handles w before (Call_ShellExecuteEx sei # cs) =
     (case os_ShellExecuteEx w before sei of
        Launched h \<Rightarrow> h # created_handles w (before @ [Call_ShellExecuteEx sei]) cs
      | LaunchFailed \<Rightarrow> created_handles w (before @ [Call_ShellExecuteEx sei]) cs)"
| "created_handles w before (c # cs) = created_handles w (before @ [c]) cs"

definition is_response :: "http_outcome \<Rightarrow> bool" where
  "is_response r =
     (case r of Response code \<Rightarrow> True | ConnectionFailed \<Rightarrow> False | TimedOut \<Rightarrow> False
      | ResolveFailed \<Rightarrow> False)"

text \<open>
  Two operating systems to run the launcher on. On the first every call succeeds: windows
  get fresh handles, the marker file is there, launches hand out the process handle 4242,
  every request is answered with status 200 and dialogs are answered with Yes. On the
  second every call fails. The clock stands at 23:07:05 on both.
\<close>

definition os_all_up :: os where
  "os_all_up =
     \<lparr>os_CreateSolidBrush = (\<lambda>cs. Suc (length cs)),
      os_RegisterClassEx = (\<lambda>cs. 1),
      os_CreateWindowEx = (\<lambda>cs. 100 + length cs),
      os_CreateWindow = (\<lambda>cs. 100 + length cs),
      os_localtime = (\<lambda>cs. \<lparr>tm_sec = 5, tm_min = 7, tm_hour = 23\<rparr>),
      os_InternetOpen = (\<lambda>cs. 7),
      os_http = (\<lambda>cs url. Response 200),
      os_file_exists = (\<lambda>cs path. True),
      os_ShellExecuteEx = (\<lambda>cs sei. Launched 4242),
      os_MessageBox = (\<lambda>cs. IDYES),
      os_DefWindowProc = (\<lambda>cs. 0)\<rparr>"

definition os_all_down :: os where
  "os_all_down =
     \<lparr>os_CreateSolidBrush = (\<lambda>cs. NULL),
      os_RegisterClassEx = (\<lambda>cs. 0),
      os_CreateWindowEx = (\<lambda>cs. NULL),
      os_CreateWindow = (\<lambda>cs. NULL),
      os_localtime = (\<lambda>cs. \<lparr>tm_sec = 5, tm_min = 7, tm_hour = 23\<rparr>),
      os_InternetOpen = (\<lambda>cs. NULL),
      os_http = (\<lambda>cs url. ConnectionFailed),
      os_file_exists = (\<lambda>cs path. False),
      os_ShellExecuteEx = (\<lambda>cs sei. LaunchFailed),
      os_MessageBox = (\<lambda>cs. IDOK),
      os_DefWindowProc = (\<lambda>cs. 0)\<rparr>"

text \<open>The launcher as \<open>WinMain\<close> has it when the message loop starts.\<close>

definition constructed :: "os \<Rightarrow> launcher" where
  "constructed w = VisiFruitLauncher_ctor w (call Call_InitCommonControlsEx process_start)"

definition ready :: "os \<Rightarrow> launcher" where
  "ready w = snd (Initialize w (constructed w))"

text \<open>
  The results of the three probes of one poll, made one after the other from a state:
  port 8001 for the backend, port 3000 for the frontend, port 8000 for the system.
\<close>

definition probe_results :: "os \<Rightarrow> launcher \<Rightarrow> bool \<times> bool \<times> bool" where
  "probe_results w s =
     (let (b, s1) = CheckPort w 8001 s;
          (f, s2) = CheckPort w 3000 s1;
          (y, s3) = CheckPort w 8000 s2
      in (b, f, y))"

text \<open>A probe reads and changes only the list of calls: its result and the calls after
  it, as functions of the calls before it.\<close>

definition probe_result :: "os \<Rightarrow> os_call list \<Rightarrow> int \<Rightarrow> bool" where
  "probe_result w cs port = fst (CheckPort w port (process_start\<lparr>calls := cs\<rparr>))"

definition probe_calls :: "os \<Rightarrow> os_call list \<Rightarrow> int \<Rightarrow> os_call list" where
  "probe_calls w cs port = calls (snd (CheckPort w port (process_start\<lparr>calls := cs\<rparr>)))"

text \<open>
  The most recent poll among the messages handled from a state: the results of its three
  probes, or \<open>None\<close> when no message was a tick of the status timer.
\<close>

fun last_poll :: "os \<Rightarrow> msg list \<Rightarrow> launcher \<Rightarrow> (bool \<times> bool \<times> bool) option" where
  "last_poll w [] s = None"
| "last_poll w (m # ms) s =
     (case last_poll w ms (snd (WndProc w m s)) of
        Some r \<Rightarrow> Some r
      | None \<Rightarrow> if m = WM_TIMER TIMER_STATUS_UPDATE then Some (probe_results w s) else None)"

text \<open>The text colours set, each with its device context.\<close>

fun text_colours :: "os_call list \<Rightarrow> (HDC \<times> COLORREF) list" where
  "text_colours [] = []"
| "text_colours (Call_SetTextColor hdc c # cs) = (hdc, c) # text_colours cs"
| "text_colours (c # cs) = text_colours cs"

text \<open>The controls asked to repaint.\<close>

fun invalidated :: "os_call list \<Rightarrow> HWND list" where
  "invalidated [] = []"
| "invalidated (Call_InvalidateRect h # cs) = h # invalidated cs"
| "invalidated (c # cs) = invalidated cs"

text \<open>An operating system as the first, where only the backend answers, with status 404.\<close>

definition os_backend_only :: os where
  "os_backend_only =
     os_all_up\<lparr>os_http :=
       (\<lambda>cs url. if url = L ''http://localhost:8001/health'' then Response 404 else ConnectionFailed)\<rparr>"

text \<open>The first operating system with one thing going wrong: every launch fails; the
  marker file is missing; no WinINet session opens; every request times out.\<close>

definition os_launch_fails :: os where
  "os_launch_fails = os_all_up\<lparr>os_ShellExecuteEx := (\<lambda>cs sei. LaunchFailed)\<rparr>"

definition os_no_marker :: os where
  "os_no_marker = os_all_up\<lparr>os_file_exists := (\<lambda>cs path. False)\<rparr>"

definition os_no_session :: os where
  "os_no_session = os_all_up\<lparr>os_InternetOpen := (\<lambda>cs. NULL)\<rparr>"

definition os_timeout :: os where
  "os_timeout = os_all_up\<lparr>os_http := (\<lambda>cs url. TimedOut)\<rparr>"

text \<open>The entry of the log as the specification writes it: \<open>[HH:MM:SS] <message>\<close> with
  two digits in each field.\<close>

definition log_entry :: "tm \<Rightarrow> wstring \<Rightarrow> wstring" where
  "log_entry t message =
     L ''['' @ two_digits (nat (tm_hour t)) @ L '':'' @ two_digits (nat (tm_min t)) @ L '':''
       @ two_digits (nat (tm_sec t)) @ L ''] '' @ message"

section \<open>Properties\<close>

subsection \<open>The calls read off a longer list\<close>

lemma launches_append [simp]: "launches (xs @ ys) = launches xs @ launches ys"
  by (induction xs rule: launches.induct) simp_all

lemma http_gets_append [simp]: "http_gets (xs @ ys) = http_gets xs @ http_gets ys"
  by (induction xs rule: http_gets.induct) simp_all

lemma dialogs_append [simp]: "dialogs (xs @ ys) = dialogs xs @ dialogs ys"
  by (induction xs rule: dialogs.induct) simp_all

lemma browser_opens_append [simp]: "browser_opens (xs @ ys) = browser_opens xs @ browser_opens ys"
  by (induction xs rule: browser_opens.induct) simp_all

lemma terminated_append [simp]: "terminated (xs @ ys) = terminated xs @ terminated ys"
  by (induction xs rule: terminated.induct) simp_all

lemma text_colours_append [simp]: "text_colours (xs @ ys) = text_colours xs @ text_colours ys"
  by (induction xs rule: text_colours.induct) simp_all

lemma invalidated_append [simp]: "invalidated (xs @ ys) = invalidated xs @ invalidated ys"
  by (induction xs rule: invalidated.induct) simp_all

subsection \<open>The log\<close>

lemma setfill_setw_two_digits:
  assumes "0 \<le> v" and "v < 100"
  shows "setfill_setw 48 2 v = two_digits (nat v)"
proof (cases "nat v < 10")
  case True
  then have "digits10 (nat v) = [word_of_nat (48 + nat v)]"
    by (simp add: digits10.simps)
  with assms True show ?thesis
    by (simp add: setfill_setw_def to_wstring_def two_digits_def)
next
  case False
  from assms have "nat v div 10 < 10"
    by simp
  then have "digits10 (nat v div 10) = [word_of_nat (48 + nat v div 10)]"
    by (simp add: digits10.simps)
  with False have "digits10 (nat v) = two_digits (nat v)"
    by (subst digits10.simps) (simp add: two_digits_def)
  with assms show ?thesis
    by (simp add: setfill_setw_def to_wstring_def two_digits_def)
qed

lemma digit_char:
  assumes "k < 10"
  shows "(word_of_nat (48 + k) :: 16 word) \<noteq> 0" and "(word_of_nat (48 + k) :: 16 word) \<noteq> 13"
proof -
  from assms have "k \<in> {0, 1, 2, 3, 4, 5, 6, 7, 8, 9}" by auto
  then show "(word_of_nat (48 + k) :: 16 word) \<noteq> 0" and "(word_of_nat (48 + k) :: 16 word) \<noteq> 13"
    by auto
qed

lemma digits10_no_nul: "0 \<notin> set (digits10 n)"
proof (induction n rule: digits10.induct)
  case (1 n)
  show ?case
  proof (cases "n < 10")
    case True
    then show ?thesis
      by (subst digits10.simps) (simp add: digit_char del: of_nat_add)
  next
    case False
    have "n mod 10 < 10" by simp
    then have "(word_of_nat (48 + n mod 10) :: 16 word) \<noteq> 0"
      by (rule digit_char)
    with False 1 show ?thesis
      by (subst digits10.simps) (simp del: of_nat_add)
  qed
qed

lemma to_wstring_no_nul: "0 \<notin> set (to_wstring i)"
  by (simp add: to_wstring_def digits10_no_nul L_def)

lemma timestamp_no_nul: "0 \<notin> set (timestamp t)"
  by (simp add: timestamp_def setfill_setw_def to_wstring_no_nul L_def)

lemma c_str_no_nul: "0 \<notin> set str \<Longrightarrow> c_str str = str"
  by (auto simp add: c_str_def takeWhile_eq_all_conv)

lemma c_str_append: "0 \<notin> set a \<Longrightarrow> c_str (a @ b) = a @ c_str b"
  unfolding c_str_def by (rule takeWhile_append2) auto

lemma split_crlf_line:
  "\<not> has_crlf a \<Longrightarrow> split_crlf cur (a @ CRLF @ rest) = (cur @ a) # split_crlf [] rest"
proof (induction a arbitrary: cur)
  case Nil
  then show ?case by (simp add: CRLF_def)
next
  case (Cons c a)
  show ?case
  proof (cases a)
    case Nil
    then show ?thesis by (simp add: CRLF_def)
  next
    case (Cons d ds)
    with Cons.prems have "\<not> (c = 13 \<and> d = 10)" and "\<not> has_crlf a"
      by simp_all
    with Cons.IH [of "cur @ [c]"] Cons show ?thesis
      by simp
  qed
qed

lemma split_crlf_append:
  "split_crlf cur (p @ CRLF @ ys) = split_crlf cur (p @ CRLF) @ split_crlf [] ys"
proof (induction cur p rule: split_crlf.induct)
  case (1 cur)
  then show ?case by (simp add: CRLF_def)
next
  case (2 cur c)
  then show ?case by (simp add: CRLF_def)
next
  case (3 cur c d cs)
  then show ?case by simp
qed

lemma has_crlf_append:
  "13 \<notin> set a \<Longrightarrow> has_crlf (a @ b) = has_crlf b"
proof (induction a)
  case Nil
  then show ?case by simp
next
  case (Cons c a)
  then show ?case
    by (cases "a @ b") simp_all
qed

lemma AddLog_eq:
  "AddLog w message s =
     s\<lparr>logsTextBox :=
         appended (timestamp (os_localtime w (calls s)) @ c_str (message @ CRLF)) (logsTextBox s),
       calls := calls s @ [Call_localtime]\<rparr>"
  by (simp add: AddLog_def Let_def call_def GetWindowTextLength_def appended_def
      EM_SETSEL_def EM_REPLACESEL_def EM_SCROLLCARET_def c_str_append timestamp_no_nul)

text \<open>The literals of the program hold no NUL, so they reach the operating system whole.\<close>

lemma c_str_literals [simp]:
  "c_str (MSG_START_ALL @ CRLF) = MSG_START_ALL @ CRLF"
  "c_str (MSG_NO_MARKER @ CRLF) = MSG_NO_MARKER @ CRLF"
  "c_str (MSG_STARTED_ALL @ CRLF) = MSG_STARTED_ALL @ CRLF"
  "c_str (MSG_START_ALL_FAILED @ CRLF) = MSG_START_ALL_FAILED @ CRLF"
  "c_str (MSG_STOPPING @ CRLF) = MSG_STOPPING @ CRLF"
  "c_str (MSG_STOPPED @ CRLF) = MSG_STOPPED @ CRLF"
  "c_str (MSG_STARTED @ CRLF) = MSG_STARTED @ CRLF"
  "c_str (L ''start_backend.bat'') = L ''start_backend.bat''"
  "c_str (L ''start_frontend.bat'') = L ''start_frontend.bat''"
  "c_str (L ''main_etiquetadora.py'') = L ''main_etiquetadora.py''"
  "c_str (L ''http://localhost:3000'') = L ''http://localhost:3000''"
  "c_str (L ''http://localhost:8001/api/docs'') = L ''http://localhost:8001/api/docs''"
  "c_str (L ''http://localhost:8000'') = L ''http://localhost:8000''"
  by (simp_all add: c_str_def CRLF_def L_def MSG_START_ALL_def MSG_NO_MARKER_def MSG_STARTED_ALL_def
      MSG_START_ALL_FAILED_def MSG_STOPPING_def MSG_STOPPED_def MSG_STARTED_def ROCKET_def
      CROSS_MARK_def CHECK_MARK_def STOP_BUTTON_def)

lemma c_str_health_url [simp]: "c_str (health_url port) = health_url port"
  by (rule c_str_no_nul) (simp add: health_url_def to_wstring_no_nul L_def)

lemma c_str_kill_cmd [simp]: "c_str (kill_cmd port) = kill_cmd port"
  by (rule c_str_no_nul) (simp add: kill_cmd_def to_wstring_no_nul L_def)

subsection \<open>Construction and initialisation\<close>

lemma create_unnamed_eq:
  "create_unnamed w cs s = s\<lparr>calls := calls s @ map (\<lambda>(cls, ident). Call_CreateWindow cls ident) cs\<rparr>"
  by (induction cs arbitrary: s) (auto simp: CreateWindow_def call_def)

lemma CreateControls_unchanged:
  "serviceStatus (CreateControls w s) = serviceStatus s
   \<and> processes (CreateControls w s) = processes s
   \<and> quitPosted (CreateControls w s) = quitPosted s
   \<and> logsTextBox (CreateControls w s) = logsTextBox s
   \<and> timers (CreateControls w s) = timers s
   \<and> hwnd (CreateControls w s) = hwnd s
   \<and> dialogs (calls (CreateControls w s)) = dialogs (calls s)
   \<and> terminated (calls (CreateControls w s)) = terminated (calls s)
   \<and> launches (calls (CreateControls w s)) = launches (calls s)"
  by (simp add: CreateControls_def create_unnamed_eq CreateWindow_def call_def Let_def)

lemma Initialize_fst:
  "fst (Initialize w s) =
     (os_RegisterClassEx w (calls s) \<noteq> 0 \<and> os_CreateWindowEx w (calls s @ [Call_RegisterClassEx]) \<noteq> NULL)"
  by (simp add: Initialize_def RegisterClassEx_def CreateWindowEx_def call_def Let_def)

lemma Initialize_unchanged:
  "serviceStatus (snd (Initialize w s)) = serviceStatus s
   \<and> processes (snd (Initialize w s)) = processes s
   \<and> quitPosted (snd (Initialize w s)) = quitPosted s
   \<and> dialogs (calls (snd (Initialize w s))) = dialogs (calls s)
   \<and> terminated (calls (snd (Initialize w s))) = terminated (calls s)
   \<and> launches (calls (snd (Initialize w s))) = launches (calls s)"
  by (simp add: Initialize_def RegisterClassEx_def CreateWindowEx_def call_def Let_def
      CreateControls_unchanged SetTimer_def AddLog_eq)

lemma ctor_eq:
  "VisiFruitLauncher_ctor w s =
     s\<lparr>hBrushBackground := os_CreateSolidBrush w (calls s),
       hBrushGreen := os_CreateSolidBrush w (calls s @ [Call_CreateSolidBrush DARK_GREY]),
       hBrushRed := os_CreateSolidBrush w (calls s @ [Call_CreateSolidBrush DARK_GREY, Call_CreateSolidBrush GREEN]),
       serviceStatus := (serviceStatus s)(''backend'' \<mapsto> False, ''frontend'' \<mapsto> False, ''system'' \<mapsto> False),
       calls := calls s @ [Call_CreateSolidBrush DARK_GREY, Call_CreateSolidBrush GREEN, Call_CreateSolidBrush RED]\<rparr>"
  by (simp add: VisiFruitLauncher_ctor_def CreateSolidBrush_def call_def Let_def)

lemma constructed_eq:
  "constructed w =
     process_start
       \<lparr>hBrushBackground := os_CreateSolidBrush w [Call_InitCommonControlsEx],
        hBrushGreen := os_CreateSolidBrush w [Call_InitCommonControlsEx, Call_CreateSolidBrush DARK_GREY],
        hBrushRed := os_CreateSolidBrush w [Call_InitCommonControlsEx, Call_CreateSolidBrush DARK_GREY, Call_CreateSolidBrush GREEN],
        serviceStatus := [''backend'' \<mapsto> False, ''frontend'' \<mapsto> False, ''system'' \<mapsto> False],
        calls := [Call_InitCommonControlsEx, Call_CreateSolidBrush DARK_GREY, Call_CreateSolidBrush GREEN, Call_CreateSolidBrush RED]\<rparr>"
  by (simp add: constructed_def ctor_eq call_def process_start_def)

lemma ready_status:
  "serviceStatus (ready w) = [''backend'' \<mapsto> False, ''frontend'' \<mapsto> False, ''system'' \<mapsto> False]"
  by (simp add: ready_def Initialize_unchanged constructed_eq process_start_def)

lemma ready_backend_only_handles:
  "hStatusBackend (ready os_backend_only) = 116 \<and> hStatusFrontend (ready os_backend_only) = 118
   \<and> hStatusSystem (ready os_backend_only) = 120"
  by (simp add: ready_def constructed_eq Initialize_def RegisterClassEx_def CreateWindowEx_def
      call_def Let_def CreateControls_def create_unnamed_eq CreateWindow_def SetTimer_def AddLog_eq
      os_all_up_def os_backend_only_def process_start_def NULL_def)

lemma ready_unchanged:
  "processes (ready w) = [] \<and> quitPosted (ready w) = None \<and> dialogs (calls (ready w)) = []
   \<and> terminated (calls (ready w)) = [] \<and> launches (calls (ready w)) = []"
  by (simp add: ready_def Initialize_unchanged constructed_eq process_start_def)

lemma ready_calls_empty:
  "dialogs (calls (ready w)) = [] \<and> terminated (calls (ready w)) = []
   \<and> launches (calls (ready w)) = [] \<and> browser_opens (calls (ready w)) = []
   \<and> http_gets (calls (ready w)) = []"
  by (simp add: ready_def constructed_eq Initialize_def RegisterClassEx_def CreateWindowEx_def
      call_def Let_def CreateControls_def create_unnamed_eq CreateWindow_def SetTimer_def AddLog_eq
      process_start_def)

lemma ready_all_up_log:
  "log_text (ready os_all_up) =
     L ''[23:07:05] '' @ ROCKET @ L '' VisiFruit Launcher (C++ Native) iniciado'' @ CRLF"
  by (simp add: ready_def constructed_eq Initialize_def RegisterClassEx_def CreateWindowEx_def
      call_def Let_def CreateControls_unchanged SetTimer_def AddLog_eq process_start_def
      log_text_def appended_def os_all_up_def NULL_def timestamp_def setfill_setw_def
      to_wstring_def digits10.simps L_def MSG_STARTED_def c_str_def ROCKET_def CRLF_def)

lemma clock:
  "os_localtime os_all_up cs = \<lparr>tm_sec = 5, tm_min = 7, tm_hour = 23\<rparr>"
  "os_localtime os_all_down cs = \<lparr>tm_sec = 5, tm_min = 7, tm_hour = 23\<rparr>"
  "os_localtime os_launch_fails cs = \<lparr>tm_sec = 5, tm_min = 7, tm_hour = 23\<rparr>"
  "os_localtime os_no_marker cs = \<lparr>tm_sec = 5, tm_min = 7, tm_hour = 23\<rparr>"
  "os_localtime os_no_session cs = \<lparr>tm_sec = 5, tm_min = 7, tm_hour = 23\<rparr>"
  "os_localtime os_timeout cs = \<lparr>tm_sec = 5, tm_min = 7, tm_hour = 23\<rparr>"
  "os_localtime os_backend_only cs = \<lparr>tm_sec = 5, tm_min = 7, tm_hour = 23\<rparr>"
  by (simp_all add: os_all_up_def os_all_down_def os_launch_fails_def os_no_marker_def
      os_no_session_def os_timeout_def os_backend_only_def)

lemma timestamp_230705: "timestamp \<lparr>tm_sec = 5, tm_min = 7, tm_hour = 23\<rparr> = L ''[23:07:05] ''"
  by (simp add: timestamp_def setfill_setw_def to_wstring_def digits10.simps L_def)

lemma created_handles_launch_fails: "created_handles os_launch_fails before cs = []"
  by (induction os_launch_fails before cs rule: created_handles.induct)
    (simp_all add: os_launch_fails_def os_all_up_def)

subsection \<open>Appending to the log\<close>

lemma two_digits_chars:
  assumes "n < 100"
  shows "0 \<notin> set (two_digits n)" and "13 \<notin> set (two_digits n)"
proof -
  have "n div 10 < 10" and "n mod 10 < 10"
    using assms by simp_all
  then show "0 \<notin> set (two_digits n)" and "13 \<notin> set (two_digits n)"
    by (simp_all add: two_digits_def digit_char del: of_nat_add)
qed

lemma timestamp_log_entry:
  assumes "0 \<le> tm_hour t" and "tm_hour t < 24"
    and "0 \<le> tm_min t" and "tm_min t < 60"
    and "0 \<le> tm_sec t" and "tm_sec t \<le> 60"
  shows "timestamp t @ message = log_entry t message"
proof -
  have "setfill_setw 48 2 (tm_hour t) = two_digits (nat (tm_hour t))"
    using assms by (intro setfill_setw_two_digits) simp_all
  moreover have "setfill_setw 48 2 (tm_min t) = two_digits (nat (tm_min t))"
    using assms by (intro setfill_setw_two_digits) simp_all
  moreover have "setfill_setw 48 2 (tm_sec t) = two_digits (nat (tm_sec t))"
    using assms by (intro setfill_setw_two_digits) simp_all
  ultimately show ?thesis
    by (simp add: timestamp_def log_entry_def)
qed

lemma log_entry_no_crlf:
  assumes "0 \<le> tm_hour t" and "tm_hour t < 24"
    and "0 \<le> tm_min t" and "tm_min t < 60"
    and "0 \<le> tm_sec t" and "tm_sec t \<le> 60"
    and "\<not> has_crlf message"
  shows "\<not> has_crlf (log_entry t message)"
proof -
  have "nat (tm_hour t) < 100" and "nat (tm_min t) < 100" and "nat (tm_sec t) < 100"
    using assms by simp_all
  then have "13 \<notin> set (L ''['' @ two_digits (nat (tm_hour t)) @ L '':''
      @ two_digits (nat (tm_min t)) @ L '':'' @ two_digits (nat (tm_sec t)) @ L ''] '')"
    by (simp add: two_digits_chars L_def)
  from has_crlf_append [OF this, of message] assms(7) show ?thesis
    by (simp add: log_entry_def)
qed

lemma line_ended_append: "line_ended (str @ CRLF)"
  by (simp add: line_ended_def CRLF_def)

lemma log_lines_append_line:
  assumes "line_ended str" and "\<not> has_crlf a"
  shows "log_lines (str @ a @ CRLF) = log_lines str @ [a]"
proof (cases "str = []")
  case True
  with split_crlf_line [OF assms(2), of "[]" "[]"] show ?thesis
    by (simp add: log_lines_def)
next
  case False
  with assms(1) have "str = take (length str - 2) str @ CRLF"
    by (metis append_take_drop_id line_ended_def)
  then obtain p where p: "str = p @ CRLF" ..
  have "split_crlf [] (p @ CRLF @ a @ CRLF) = split_crlf [] (p @ CRLF) @ split_crlf [] (a @ CRLF)"
    by (rule split_crlf_append)
  with split_crlf_line [OF assms(2), of "[]" "[]"] p show ?thesis
    by (simp add: log_lines_def)
qed

text \<open>
  Claim C6, as the code has it. The text \<open>AddLog\<close> builds reaches the edit control as a
  zero-terminated string, and a line of the control ends at a CR LF. For a message that
  holds no NUL character and no CR LF, one call puts exactly one entry at the end of the
  log text: \<open>[HH:MM:SS]\<close> with two decimal digits in each field, a blank, the message as
  it was given, and one line end; the text that was there before stays in front of it,
  unchanged. On a log that is empty or ends with a line end the lines of the log are the
  lines before and then this one new line, and the log again ends with a line end. The
  time is what \<open>localtime\<close> returns, with its fields in their ranges.
\<close>

theorem AddLog_appends_one_line:
  assumes "t = os_localtime w (calls s)"
    and "0 \<le> tm_hour t" and "tm_hour t < 24"
    and "0 \<le> tm_min t" and "tm_min t < 60"
    and "0 \<le> tm_sec t" and "tm_sec t \<le> 60"
    and "0 \<notin> set message" and "\<not> has_crlf message"
  shows "log_text (AddLog w message s) =
           log_text s @ L ''['' @ two_digits (nat (tm_hour t)) @ L '':''
             @ two_digits (nat (tm_min t)) @ L '':'' @ two_digits (nat (tm_sec t))
             @ L ''] '' @ message @ CRLF
         \<and> (line_ended (log_text s) \<longrightarrow>
               log_lines (log_text (AddLog w message s)) =
                 log_lines (log_text s) @
                   [L ''['' @ two_digits (nat (tm_hour t)) @ L '':''
                      @ two_digits (nat (tm_min t)) @ L '':'' @ two_digits (nat (tm_sec t))
                      @ L ''] '' @ message])
         \<and> line_ended (log_text (AddLog w message s))"
proof -
  have "c_str (message @ CRLF) = message @ CRLF"
    using assms(8) by (intro c_str_no_nul) (simp add: CRLF_def)
  then have eq: "log_text (AddLog w message s) = log_text s @ log_entry t message @ CRLF"
    using timestamp_log_entry [OF assms(2-7), of message] assms(1)
    by (simp add: AddLog_eq log_text_def appended_def)
  have entry: "\<not> has_crlf (log_entry t message)"
    by (rule log_entry_no_crlf [OF assms(2-7) assms(9)])
  have lines: "log_lines (log_text (AddLog w message s)) =
      log_lines (log_text s) @ [log_entry t message]" if "line_ended (log_text s)"
    using log_lines_append_line [OF that entry] by (simp add: eq)
  have "line_ended (log_text (AddLog w message s))"
    using line_ended_append [of "log_text s @ log_entry t message"] by (simp add: eq)
  with eq lines show ?thesis
    by (simp add: log_entry_def)
qed

theorem AddLog_appends_one_line_witness:
  "log_text (AddLog os_all_up (L ''uno'') (ready os_all_up)) =
     L ''[23:07:05] '' @ ROCKET @ L '' VisiFruit Launcher (C++ Native) iniciado'' @ CRLF
       @ L ''[23:07:05] uno'' @ CRLF
   \<and> log_lines (log_text (AddLog os_all_up (L ''uno'') (ready os_all_up))) =
       [L ''[23:07:05] '' @ ROCKET @ L '' VisiFruit Launcher (C++ Native) iniciado'',
        L ''[23:07:05] uno'']"
proof -
  have ended: "line_ended (log_text (ready os_all_up))"
    using line_ended_append
      [of "L ''[23:07:05] '' @ ROCKET @ L '' VisiFruit Launcher (C++ Native) iniciado''"]
    by (simp add: ready_all_up_log)
  have before: "log_lines (log_text (ready os_all_up)) =
      [L ''[23:07:05] '' @ ROCKET @ L '' VisiFruit Launcher (C++ Native) iniciado'']"
    by (simp add: ready_all_up_log log_lines_def L_def ROCKET_def CRLF_def)
  note main = AddLog_appends_one_line
    [of "\<lparr>tm_sec = 5, tm_min = 7, tm_hour = 23\<rparr>" os_all_up "ready os_all_up" "L ''uno''"]
  have a: "log_text (AddLog os_all_up (L ''uno'') (ready os_all_up)) =
      log_text (ready os_all_up) @ L ''[23:07:05] uno'' @ CRLF"
    using main [THEN conjunct1] by (simp add: clock two_digits_def L_def)
  have b: "log_lines (log_text (AddLog os_all_up (L ''uno'') (ready os_all_up))) =
      log_lines (log_text (ready os_all_up)) @ [L ''[23:07:05] uno'']"
    using main [THEN conjunct2, THEN conjunct1] ended by (simp add: clock two_digits_def L_def)
  have c1: "log_text (AddLog os_all_up (L ''uno'') (ready os_all_up)) =
      L ''[23:07:05] '' @ ROCKET @ L '' VisiFruit Launcher (C++ Native) iniciado'' @ CRLF
        @ L ''[23:07:05] uno'' @ CRLF"
    using a by (simp add: ready_all_up_log)
  have c2: "log_lines (log_text (AddLog os_all_up (L ''uno'') (ready os_all_up))) =
      [L ''[23:07:05] '' @ ROCKET @ L '' VisiFruit Launcher (C++ Native) iniciado'',
       L ''[23:07:05] uno'']"
    using b before by simp
  from c1 c2 show ?thesis
    by (rule conjI)
qed

text \<open>
  The claim as it was stated holds of every message. A message with a NUL in it, here
  \<open>a\<close>, NUL, \<open>b\<close>, is cut at the NUL: the log gains the time and \<open>a\<close>, and neither \<open>b\<close> nor
  the line end. A message with a CR LF in it, here \<open>a\<close>, CR LF, \<open>b\<close>, adds two lines.
\<close>

theorem AddLog_nul_crlf_counterexample:
  "log_text (AddLog os_all_up [97, 0, 98] (ready os_all_up)) =
     log_text (ready os_all_up) @ L ''[23:07:05] a''
   \<and> log_lines (log_text (AddLog os_all_up (L ''a'' @ CRLF @ L ''b'') (ready os_all_up))) =
       log_lines (log_text (ready os_all_up)) @ [L ''[23:07:05] a'', L ''b'']"
  by (simp add: AddLog_eq log_text_def appended_def clock timestamp_230705 ready_all_up_log [unfolded log_text_def])
    (simp add: c_str_def log_lines_def L_def ROCKET_def CRLF_def)

subsection \<open>Stopping\<close>

lemma stop_ports_eq:
  "stop_ports w ports s =
     s\<lparr>calls := calls s @ map (\<lambda>p. Call_ShellExecuteEx (kill_sei (hwnd s) p)) ports\<rparr>"
  by (induction ports arbitrary: s) (simp_all add: ShellExecuteEx_def call_def)

lemma StopAllServices_eq:
  "StopAllServices w s =
     s\<lparr>logsTextBox :=
         appended (timestamp (os_localtime w (calls s @
                      [Call_localtime, Call_ShellExecuteEx (kill_sei (hwnd s) 8000),
                       Call_ShellExecuteEx (kill_sei (hwnd s) 8001),
                       Call_ShellExecuteEx (kill_sei (hwnd s) 3000)]))
                   @ MSG_STOPPED @ CRLF)
           (appended (timestamp (os_localtime w (calls s)) @ MSG_STOPPING @ CRLF) (logsTextBox s)),
       calls := calls s @
                  [Call_localtime, Call_ShellExecuteEx (kill_sei (hwnd s) 8000),
                   Call_ShellExecuteEx (kill_sei (hwnd s) 8001),
                   Call_ShellExecuteEx (kill_sei (hwnd s) 3000), Call_localtime]\<rparr>"
  by (simp add: StopAllServices_def Let_def AddLog_eq stop_ports_eq)



text \<open>
  Claim C10. Every \<open>StopAllServices\<close> adds exactly two entries to the log: the
  announcement, and after the three launches the entry that the services were stopped
  (check mark, \<open>Servicios detenidos\<close>). The log is the same whatever the three launches
  answer: a launch that failed leaves no entry.
\<close>

theorem StopAllServices_always_logs_success:
  "log_text (StopAllServices w s) =
     log_text s @ timestamp (os_localtime w (calls s)) @ MSG_STOPPING @ CRLF
       @ timestamp (os_localtime w (calls s @
            [Call_localtime, Call_ShellExecuteEx (kill_sei (hwnd s) 8000),
             Call_ShellExecuteEx (kill_sei (hwnd s) 8001),
             Call_ShellExecuteEx (kill_sei (hwnd s) 3000)]))
       @ CHECK_MARK @ L '' Servicios detenidos'' @ CRLF
   \<and> log_text (StopAllServices (w\<lparr>os_ShellExecuteEx := answers\<rparr>) s) = log_text (StopAllServices w s)"
  by (simp add: StopAllServices_eq log_text_def appended_def MSG_STOPPED_def)

theorem StopAllServices_always_logs_success_witness:
  "log_text (StopAllServices os_launch_fails (ready os_launch_fails)) =
     log_text (ready os_launch_fails)
       @ L ''[23:07:05] '' @ STOP_BUTTON @ L '' Deteniendo todos los servicios...'' @ CRLF
       @ L ''[23:07:05] '' @ CHECK_MARK @ L '' Servicios detenidos'' @ CRLF
   \<and> created_handles os_launch_fails []
       (calls (StopAllServices os_launch_fails (ready os_launch_fails))) = []"
  using StopAllServices_always_logs_success [of os_launch_fails "ready os_launch_fails", THEN conjunct1]
  by (simp add: clock timestamp_230705 MSG_STOPPING_def created_handles_launch_fails)

subsection \<open>Probing\<close>

lemma CheckPort_eq:
  "CheckPort w port s =
     (if os_InternetOpen w (calls s) = NULL then (False, s\<lparr>calls := calls s @ [Call_InternetOpen]\<rparr>)
      else if is_response (os_http w (calls s @ [Call_InternetOpen]) (health_url port)) then
        (True, s\<lparr>calls := calls s @
           [Call_InternetOpen, Call_InternetOpenUrl (os_InternetOpen w (calls s)) (health_url port),
            Call_InternetCloseHandle (Suc (Suc (length (calls s)))),
            Call_InternetCloseHandle (os_InternetOpen w (calls s))]\<rparr>)
      else
        (False, s\<lparr>calls := calls s @
           [Call_InternetOpen, Call_InternetOpenUrl (os_InternetOpen w (calls s)) (health_url port),
            Call_InternetCloseHandle (os_InternetOpen w (calls s))]\<rparr>))"
  by (simp add: CheckPort_def InternetOpen_def InternetOpenUrl_def InternetCloseHandle_def
      call_def Let_def NULL_def is_response_def split: http_outcome.splits)

text \<open>
  Claim C7, as the code has it. \<open>CheckPort\<close> first opens a WinINet session. When that
  fails it returns false and requests nothing. When the session opens it sends exactly
  one GET, to \<open>http://localhost:<port>/health\<close>, and returns true exactly when a response
  arrived, whatever its status code; a failed connection, a timeout and a name that does
  not resolve give false. There is no second request. The calls it makes are the session
  open, the request, and the closing of the handles it got, those and no other; nothing
  else of the state changes.
\<close>

theorem CheckPort_one_get_when_session_opens:
  "CheckPort w port s =
     (if os_InternetOpen w (calls s) = NULL then
        (False, s\<lparr>calls := calls s @ [Call_InternetOpen]\<rparr>)
      else if is_response (os_http w (calls s @ [Call_InternetOpen]) (health_url port)) then
        (True, s\<lparr>calls := calls s @
           [Call_InternetOpen, Call_InternetOpenUrl (os_InternetOpen w (calls s)) (health_url port),
            Call_InternetCloseHandle (Suc (Suc (length (calls s)))),
            Call_InternetCloseHandle (os_InternetOpen w (calls s))]\<rparr>)
      else
        (False, s\<lparr>calls := calls s @
           [Call_InternetOpen, Call_InternetOpenUrl (os_InternetOpen w (calls s)) (health_url port),
            Call_InternetCloseHandle (os_InternetOpen w (calls s))]\<rparr>))
   \<and> is_response (Response code) \<and> \<not> is_response ConnectionFailed
   \<and> \<not> is_response TimedOut \<and> \<not> is_response ResolveFailed
   \<and> fst (CheckPort w port s) =
     (os_InternetOpen w (calls s) \<noteq> NULL
      \<and> is_response (os_http w (calls s @ [Call_InternetOpen]) (health_url port)))
   \<and> http_gets (calls (snd (CheckPort w port s))) =
       http_gets (calls s) @ (if os_InternetOpen w (calls s) = NULL then [] else [health_url port])
   \<and> health_url port = L ''http://localhost:'' @ to_wstring port @ L ''/health''
   \<and> snd (CheckPort w port s) = s\<lparr>calls := calls (snd (CheckPort w port s))\<rparr>"
proof -
  have "is_response (Response code) \<and> \<not> is_response ConnectionFailed
      \<and> \<not> is_response TimedOut \<and> \<not> is_response ResolveFailed"
    by (simp add: is_response_def)
  moreover have "health_url port = L ''http://localhost:'' @ to_wstring port @ L ''/health''"
    by (simp add: health_url_def)
  ultimately show ?thesis
    using CheckPort_eq [of w port s] by (simp split: if_splits)
qed

theorem CheckPort_one_get_when_session_opens_witness:
  "fst (CheckPort os_backend_only 8001 (ready os_backend_only))
   \<and> http_gets (calls (snd (CheckPort os_backend_only 8001 (ready os_backend_only)))) =
       [L ''http://localhost:8001/health'']
   \<and> \<not> fst (CheckPort os_timeout 8001 (ready os_timeout))
   \<and> http_gets (calls (snd (CheckPort os_timeout 8001 (ready os_timeout)))) =
       [L ''http://localhost:8001/health'']"
  using CheckPort_one_get_when_session_opens [of os_backend_only 8001 "ready os_backend_only"]
    CheckPort_one_get_when_session_opens [of os_timeout 8001 "ready os_timeout"]
  by (simp add: os_backend_only_def os_timeout_def os_all_up_def NULL_def is_response_def
      health_url_def to_wstring_def digits10.simps L_def ready_calls_empty)

text \<open>The claim as it was stated asks for one GET on every probe. Where the session does
  not open, the probe of port 8001 requests nothing.\<close>

theorem CheckPort_no_get_counterexample:
  "\<not> fst (CheckPort os_no_session 8001 (ready os_no_session))
   \<and> http_gets (calls (snd (CheckPort os_no_session 8001 (ready os_no_session)))) = []"
  by (simp add: CheckPort_eq os_no_session_def ready_calls_empty)

subsection \<open>What each handler does to the state\<close>

lemma CheckPort_split:
  "CheckPort w port s = (probe_result w (calls s) port, s\<lparr>calls := probe_calls w (calls s) port\<rparr>)"
  by (simp add: probe_result_def probe_calls_def CheckPort_eq)

lemma OpenURL_eq:
  "OpenURL w url s =
     s\<lparr>logsTextBox :=
         appended (timestamp (os_localtime w (calls s @
                      [Call_ShellExecute (hwnd s) (L ''open'') (c_str url) SW_SHOWNORMAL]))
                   @ c_str ((GLOBE @ L '' Abierto: '' @ url) @ CRLF)) (logsTextBox s),
       calls := calls s @
         [Call_ShellExecute (hwnd s) (L ''open'') (c_str url) SW_SHOWNORMAL, Call_localtime]\<rparr>"
  by (simp add: OpenURL_def Let_def AddLog_eq call_def)

lemma StartCompleteSystem_eq:
  "StartCompleteSystem w s =
     (if \<not> os_file_exists w (calls s @ [Call_localtime]) (L ''main_etiquetadora.py'') then
        s\<lparr>logsTextBox :=
            appended (timestamp (os_localtime w (calls s @
                         [Call_localtime, Call_GetFileAttributes (L ''main_etiquetadora.py'')]))
                      @ MSG_NO_MARKER @ CRLF)
              (appended (timestamp (os_localtime w (calls s)) @ MSG_START_ALL @ CRLF) (logsTextBox s)),
          calls := calls s @
            [Call_localtime, Call_GetFileAttributes (L ''main_etiquetadora.py''), Call_localtime,
             Call_MessageBox (hwnd s) MSG_NOT_ROOT (L ''Error'') MB_OK_ICONERROR]\<rparr>
      else if os_ShellExecuteEx w (calls s @
                  [Call_localtime, Call_GetFileAttributes (L ''main_etiquetadora.py'')])
                (start_all_sei (hwnd s)) = LaunchFailed then
        s\<lparr>logsTextBox :=
            appended (timestamp (os_localtime w (calls s @
                         [Call_localtime, Call_GetFileAttributes (L ''main_etiquetadora.py''),
                          Call_ShellExecuteEx (start_all_sei (hwnd s))]))
                      @ MSG_START_ALL_FAILED @ CRLF)
              (appended (timestamp (os_localtime w (calls s)) @ MSG_START_ALL @ CRLF) (logsTextBox s)),
          calls := calls s @
            [Call_localtime, Call_GetFileAttributes (L ''main_etiquetadora.py''),
             Call_ShellExecuteEx (start_all_sei (hwnd s)), Call_localtime]\<rparr>
      else
        s\<lparr>logsTextBox :=
            appended (timestamp (os_localtime w (calls s @
                         [Call_localtime, Call_GetFileAttributes (L ''main_etiquetadora.py''),
                          Call_ShellExecuteEx (start_all_sei (hwnd s))]))
                      @ MSG_STARTED_ALL @ CRLF)
              (appended (timestamp (os_localtime w (calls s)) @ MSG_START_ALL @ CRLF) (logsTextBox s)),
          timers := (timers s)(3001 \<mapsto> 8000),
          calls := calls s @
            [Call_localtime, Call_GetFileAttributes (L ''main_etiquetadora.py''),
             Call_ShellExecuteEx (start_all_sei (hwnd s)), Call_localtime]\<rparr>)"
  by (simp add: StartCompleteSystem_def Let_def AddLog_eq GetFileAttributes_valid_def
      MessageBox_def ShellExecuteEx_def SetTimer_def call_def split: shell_result.splits)

lemma StartIndividualService_eq:
  "StartIndividualService w service scriptName s =
     s\<lparr>logsTextBox :=
         appended (timestamp (os_localtime w (calls s @
                      [Call_localtime, Call_ShellExecuteEx (service_sei (hwnd s) scriptName)]))
                   @ c_str ((if os_ShellExecuteEx w (calls s @ [Call_localtime])
                                  (service_sei (hwnd s) scriptName) = LaunchFailed
                             then CROSS_MARK @ L '' Error iniciando '' @ service
                             else CHECK_MARK @ L '' '' @ service @ L '' iniciado'') @ CRLF))
           (appended (timestamp (os_localtime w (calls s))
                      @ c_str ((WRENCH @ L '' Iniciando '' @ service @ L ''...'') @ CRLF))
              (logsTextBox s)),
       calls := calls s @
         [Call_localtime, Call_ShellExecuteEx (service_sei (hwnd s) scriptName), Call_localtime]\<rparr>"
  by (simp add: StartIndividualService_def Let_def AddLog_eq ShellExecuteEx_def call_def
      split: shell_result.splits)

lemma UpdateServiceStatus_eq:
  "UpdateServiceStatus w s =
     s\<lparr>serviceStatus :=
         (serviceStatus s)
           (''backend'' \<mapsto> fst (probe_results w s),
            ''frontend'' \<mapsto> fst (snd (probe_results w s)),
            ''system'' \<mapsto> snd (snd (probe_results w s))),
       calls :=
         probe_calls w (probe_calls w (probe_calls w (calls s) 8001) 3000) 8000 @
           [Call_SetWindowText (hStatusBackend s) BULLET, Call_InvalidateRect (hStatusBackend s),
            Call_SetWindowText (hStatusFrontend s) BULLET, Call_InvalidateRect (hStatusFrontend s),
            Call_SetWindowText (hStatusSystem s) BULLET, Call_InvalidateRect (hStatusSystem s)]\<rparr>"
  by (simp add: UpdateServiceStatus_def probe_results_def CheckPort_split Let_def map_index_def
      UpdateStatusIndicator_def call_def)


lemmas handler_eqs =
  StartCompleteSystem_eq StopAllServices_eq StartIndividualService_eq OpenURL_eq
  UpdateServiceStatus_eq

lemma HandleCommand_unchanged:
  "serviceStatus (HandleCommand w c s) = serviceStatus s
   \<and> processes (HandleCommand w c s) = processes s
   \<and> quitPosted (HandleCommand w c s) = quitPosted s
   \<and> hwnd (HandleCommand w c s) = hwnd s
   \<and> hStatusBackend (HandleCommand w c s) = hStatusBackend s
   \<and> hStatusFrontend (HandleCommand w c s) = hStatusFrontend s
   \<and> hStatusSystem (HandleCommand w c s) = hStatusSystem s"
  by (simp add: HandleCommand_def handler_eqs)

lemma HandleTimer_unchanged:
  "processes (HandleTimer w n s) = processes s
   \<and> quitPosted (HandleTimer w n s) = quitPosted s
   \<and> hwnd (HandleTimer w n s) = hwnd s
   \<and> hStatusBackend (HandleTimer w n s) = hStatusBackend s
   \<and> hStatusFrontend (HandleTimer w n s) = hStatusFrontend s
   \<and> hStatusSystem (HandleTimer w n s) = hStatusSystem s"
  by (simp add: HandleTimer_def handler_eqs KillTimer_def)

lemma HandleTimer_status:
  "serviceStatus (HandleTimer w n s) =
     (if n = TIMER_STATUS_UPDATE then
        (serviceStatus s)
           (''backend'' \<mapsto> fst (probe_results w s),
            ''frontend'' \<mapsto> fst (snd (probe_results w s)),
            ''system'' \<mapsto> snd (snd (probe_results w s)))
      else serviceStatus s)"
  by (simp add: HandleTimer_def handler_eqs KillTimer_def)

lemma colour_indicator_eq:
  "serviceStatus s name = Some b \<Longrightarrow>
   colour_indicator hdc name s =
     (hBrushBackground s,
      s\<lparr>calls := calls s @ [Call_SetTextColor hdc (if b then GREEN else RED),
                              Call_SetBkColor hdc DARK_GREY]\<rparr>)"
  by (simp add: colour_indicator_def map_index_def call_def Let_def)

lemma DestroyWindow_eq:
  "DestroyWindow s =
     s\<lparr>timers := Map.empty, quitPosted := Some 0, calls := calls s @ [Call_DestroyWindow (hwnd s)]\<rparr>"
  by (simp add: DestroyWindow_def on_WM_DESTROY_def PostQuitMessage_def KillTimer_def call_def Let_def)

lemma WndProc_unchanged:
  "processes (snd (WndProc w m s)) = processes s
   \<and> hwnd (snd (WndProc w m s)) = hwnd s
   \<and> hStatusBackend (snd (WndProc w m s)) = hStatusBackend s
   \<and> hStatusFrontend (snd (WndProc w m s)) = hStatusFrontend s
   \<and> hStatusSystem (snd (WndProc w m s)) = hStatusSystem s"
  by (cases m)
    (simp_all add: WndProc_def HandleCommand_unchanged HandleTimer_unchanged colour_indicator_def
      map_index_def call_def Let_def MessageBox_def DestroyWindow_eq on_WM_DESTROY_def
      PostQuitMessage_def KillTimer_def DefWindowProc_def split: option.splits)

lemma WndProc_quitPosted:
  "quitPosted (snd (WndProc w m s)) = quitPosted s \<or> quitPosted (snd (WndProc w m s)) = Some 0"
  by (cases m)
    (simp_all add: WndProc_def HandleCommand_unchanged HandleTimer_unchanged colour_indicator_def
      map_index_def call_def Let_def MessageBox_def DestroyWindow_eq on_WM_DESTROY_def
      PostQuitMessage_def KillTimer_def DefWindowProc_def split: option.splits)

lemma WndProc_status:
  assumes "{''backend'', ''frontend'', ''system''} \<subseteq> dom (serviceStatus s)"
  shows "serviceStatus (snd (WndProc w m s)) =
           (if m = WM_TIMER TIMER_STATUS_UPDATE then
              (serviceStatus s)
                (''backend'' \<mapsto> fst (probe_results w s),
                 ''frontend'' \<mapsto> fst (snd (probe_results w s)),
                 ''system'' \<mapsto> snd (snd (probe_results w s)))
            else serviceStatus s)"
proof (cases m)
  case (WM_CTLCOLORSTATIC hdc hControl)
  from assms obtain b f y where
    "serviceStatus s ''backend'' = Some b" "serviceStatus s ''frontend'' = Some f"
    "serviceStatus s ''system'' = Some y"
    by auto
  with WM_CTLCOLORSTATIC show ?thesis
    by (simp add: WndProc_def colour_indicator_eq call_def Let_def)
qed (simp_all add: WndProc_def HandleCommand_unchanged HandleTimer_status Let_def MessageBox_def
      DestroyWindow_eq on_WM_DESTROY_def PostQuitMessage_def KillTimer_def DefWindowProc_def call_def)

subsection \<open>Starting the complete system\<close>

text \<open>
  Claim C4. With the marker file \<open>main_etiquetadora.py\<close> absent, \<open>StartCompleteSystem\<close>
  writes the announcement and then exactly one error entry (cross mark, \<open>Error: No se
  encuentra main_etiquetadora.py\<close>) to the log, shows exactly one dialog, the error box
  owned by the main window, and returns. It launches nothing and opens nothing; no field
  of the launcher but the log text and the list of calls changes, so the timers, the status
  flags and the quit message are as before and the launcher keeps running.
\<close>

theorem StartCompleteSystem_marker_absent:
  assumes "\<not> os_file_exists w (calls s @ [Call_localtime]) (L ''main_etiquetadora.py'')"
  shows "log_text (StartCompleteSystem w s) =
           log_text s @ timestamp (os_localtime w (calls s)) @ MSG_START_ALL @ CRLF
             @ timestamp (os_localtime w (calls s @
                  [Call_localtime, Call_GetFileAttributes (L ''main_etiquetadora.py'')]))
             @ CROSS_MARK @ L '' Error: No se encuentra main_etiquetadora.py'' @ CRLF
         \<and> dialogs (calls (StartCompleteSystem w s)) =
             dialogs (calls s) @ [(hwnd s, MSG_NOT_ROOT, L ''Error'', MB_OK_ICONERROR)]
         \<and> launches (calls (StartCompleteSystem w s)) = launches (calls s)
         \<and> browser_opens (calls (StartCompleteSystem w s)) = browser_opens (calls s)
         \<and> calls (StartCompleteSystem w s) =
             calls s @ [Call_localtime, Call_GetFileAttributes (L ''main_etiquetadora.py''),
                        Call_localtime,
                        Call_MessageBox (hwnd s) MSG_NOT_ROOT (L ''Error'') MB_OK_ICONERROR]
         \<and> StartCompleteSystem w s =
             s\<lparr>logsTextBox := logsTextBox (StartCompleteSystem w s),
               calls := calls (StartCompleteSystem w s)\<rparr>"
  using assms by (simp add: StartCompleteSystem_eq log_text_def appended_def MSG_NO_MARKER_def)

theorem StartCompleteSystem_marker_absent_witness:
  "log_text (StartCompleteSystem os_no_marker (ready os_no_marker)) =
     log_text (ready os_no_marker)
       @ L ''[23:07:05] '' @ ROCKET @ L '' Iniciando sistema completo...'' @ CRLF
       @ L ''[23:07:05] '' @ CROSS_MARK @ L '' Error: No se encuentra main_etiquetadora.py'' @ CRLF
   \<and> length (dialogs (calls (StartCompleteSystem os_no_marker (ready os_no_marker)))) = 1
   \<and> launches (calls (StartCompleteSystem os_no_marker (ready os_no_marker))) = []
   \<and> quitPosted (StartCompleteSystem os_no_marker (ready os_no_marker)) = None
   \<and> timers (StartCompleteSystem os_no_marker (ready os_no_marker)) = timers (ready os_no_marker)"
proof -
  have absent: "\<not> os_file_exists os_no_marker (calls (ready os_no_marker) @ [Call_localtime])
      (L ''main_etiquetadora.py'')"
    by (simp add: os_no_marker_def)
  have "quitPosted (StartCompleteSystem os_no_marker (ready os_no_marker)) = None
    \<and> timers (StartCompleteSystem os_no_marker (ready os_no_marker)) = timers (ready os_no_marker)"
    by (subst (1 2) StartCompleteSystem_marker_absent
        [OF absent, THEN conjunct2, THEN conjunct2, THEN conjunct2, THEN conjunct2, THEN conjunct2])
      (simp add: ready_unchanged)
  then show ?thesis
    using StartCompleteSystem_marker_absent [OF absent]
    by (simp add: clock timestamp_230705 MSG_START_ALL_def ready_calls_empty)
qed

text \<open>
  Claim C5. With the marker file present, \<open>StartCompleteSystem\<close> makes exactly one
  launch, of \<open>start_sistema_completo.bat\<close>. When the launch succeeds it sets timer 3001
  with a period of 8000 milliseconds and opens nothing yet; when it fails no timer is
  set. A tick of timer 3001 opens \<open>http://localhost:3000\<close> in the browser once and removes
  the timer, so it does not fire again.
\<close>

theorem StartCompleteSystem_marker_present:
  assumes "os_file_exists w (calls s @ [Call_localtime]) (L ''main_etiquetadora.py'')"
  shows "launches (calls (StartCompleteSystem w s)) = launches (calls s) @ [start_all_sei (hwnd s)]
         \<and> lpFile (start_all_sei (hwnd s)) = L ''start_sistema_completo.bat''
         \<and> timers (StartCompleteSystem w s) =
             (if os_ShellExecuteEx w (calls s @
                   [Call_localtime, Call_GetFileAttributes (L ''main_etiquetadora.py'')])
                 (start_all_sei (hwnd s)) = LaunchFailed
              then timers s else (timers s)(3001 \<mapsto> 8000))
         \<and> browser_opens (calls (StartCompleteSystem w s)) = browser_opens (calls s)
         \<and> browser_opens (calls (HandleTimer w 3001 s')) =
             browser_opens (calls s') @ [L ''http://localhost:3000'']
         \<and> timers (HandleTimer w 3001 s') = (timers s')(3001 := None)"
  using assms
  by (simp add: StartCompleteSystem_eq start_all_sei_def HandleTimer_def TIMER_STATUS_UPDATE_def
      OpenURL_eq KillTimer_def)

theorem StartCompleteSystem_marker_present_witness:
  "map lpFile (launches (calls (StartCompleteSystem os_all_up (ready os_all_up)))) =
     [L ''start_sistema_completo.bat'']
   \<and> timers (StartCompleteSystem os_all_up (ready os_all_up)) 3001 = Some 8000
   \<and> browser_opens (calls (StartCompleteSystem os_all_up (ready os_all_up))) = []
   \<and> browser_opens (calls (HandleTimer os_all_up 3001 (StartCompleteSystem os_all_up (ready os_all_up)))) =
       [L ''http://localhost:3000'']
   \<and> timers (HandleTimer os_all_up 3001 (StartCompleteSystem os_all_up (ready os_all_up))) 3001 = None"
proof -
  have present: "os_file_exists os_all_up (calls (ready os_all_up) @ [Call_localtime])
      (L ''main_etiquetadora.py'')"
    by (simp add: os_all_up_def)
  show ?thesis
    using StartCompleteSystem_marker_present
      [OF present, of "StartCompleteSystem os_all_up (ready os_all_up)"]
    by (simp add: os_all_up_def ready_calls_empty)
qed

subsection \<open>The status flags\<close>

lemma probe_calls_invalidated [simp]: "invalidated (probe_calls w cs port) = invalidated cs"
  by (simp add: probe_calls_def CheckPort_eq)

lemma poll_invalidates:
  "invalidated (calls (snd (WndProc w (WM_TIMER TIMER_STATUS_UPDATE) s))) =
     invalidated (calls s) @ [hStatusBackend s, hStatusFrontend s, hStatusSystem s]"
  by (simp add: WndProc_def HandleTimer_def UpdateServiceStatus_eq)

lemma run_unchanged:
  "processes (run w ms s) = processes s
   \<and> hwnd (run w ms s) = hwnd s
   \<and> hStatusBackend (run w ms s) = hStatusBackend s
   \<and> hStatusFrontend (run w ms s) = hStatusFrontend s
   \<and> hStatusSystem (run w ms s) = hStatusSystem s"
  by (induction ms arbitrary: s) (simp_all add: WndProc_unchanged)

lemma WndProc_keys:
  assumes "{''backend'', ''frontend'', ''system''} \<subseteq> dom (serviceStatus s)"
  shows "{''backend'', ''frontend'', ''system''} \<subseteq> dom (serviceStatus (snd (WndProc w m s)))"
  using assms by (simp add: WndProc_status [OF assms])

lemma run_status:
  assumes "{''backend'', ''frontend'', ''system''} \<subseteq> dom (serviceStatus s)"
  shows "serviceStatus (run w ms s) =
           (case last_poll w ms s of
              None \<Rightarrow> serviceStatus s
            | Some r \<Rightarrow> (serviceStatus s)(''backend'' \<mapsto> fst r, ''frontend'' \<mapsto> fst (snd r),
                                           ''system'' \<mapsto> snd (snd r)))"
  using assms
proof (induction ms arbitrary: s)
  case Nil
  then show ?case by simp
next
  case (Cons m ms)
  note keys = Cons.prems
  have step: "serviceStatus (run w ms (snd (WndProc w m s))) =
      (case last_poll w ms (snd (WndProc w m s)) of
         None \<Rightarrow> serviceStatus (snd (WndProc w m s))
       | Some r \<Rightarrow> (serviceStatus (snd (WndProc w m s)))
           (''backend'' \<mapsto> fst r, ''frontend'' \<mapsto> fst (snd r), ''system'' \<mapsto> snd (snd r)))"
    by (rule Cons.IH) (rule WndProc_keys [OF keys])
  show ?case
  proof (cases "last_poll w ms (snd (WndProc w m s))")
    case None
    then show ?thesis
      by (auto simp add: step WndProc_status [OF keys] fun_eq_iff)
  next
    case (Some r)
    have "(serviceStatus (snd (WndProc w m s)))
            (''backend'' \<mapsto> fst r, ''frontend'' \<mapsto> fst (snd r), ''system'' \<mapsto> snd (snd r)) =
          (serviceStatus s)
            (''backend'' \<mapsto> fst r, ''frontend'' \<mapsto> fst (snd r), ''system'' \<mapsto> snd (snd r))"
      by (rule ext) (simp add: WndProc_status [OF keys])
    with Some show ?thesis
      by (simp add: step)
  qed
qed

lemma run_keys:
  "{''backend'', ''frontend'', ''system''} \<subseteq> dom (serviceStatus (run w ms (ready w)))"
proof -
  have keys: "{''backend'', ''frontend'', ''system''} \<subseteq> dom (serviceStatus (ready w))"
    by (simp add: ready_status)
  show ?thesis
    by (simp add: run_status [OF keys] ready_status split: option.splits)
qed

text \<open>
  Claim C8. The constructor sets the three status flags to false. A tick of the status
  timer (\<open>WM_TIMER\<close> with \<open>TIMER_STATUS_UPDATE\<close>) overwrites all three with the results
  of three probes made one after the other: port 8001 for the backend, port 3000 for the
  frontend, port 8000 for the system. No other message changes the flags, and neither do
  the command dispatcher, the start and stop operations, the URL opener or \<open>Initialize\<close>.
  The colour request reads the flags with \<open>operator[]\<close>, which writes only a key that
  is missing; the three keys are there from the constructor on (lemma \<open>run_keys\<close>).
\<close>

theorem serviceStatus_written_only_by_poll:
  assumes "{''backend'', ''frontend'', ''system''} \<subseteq> dom (serviceStatus s)"
  shows "serviceStatus (constructed w) =
           [''backend'' \<mapsto> False, ''frontend'' \<mapsto> False, ''system'' \<mapsto> False]
         \<and> serviceStatus (snd (WndProc w (WM_TIMER TIMER_STATUS_UPDATE) s)) =
             (serviceStatus s)
               (''backend'' \<mapsto> fst (CheckPort w 8001 s),
                ''frontend'' \<mapsto> fst (CheckPort w 3000 (snd (CheckPort w 8001 s))),
                ''system'' \<mapsto>
                  fst (CheckPort w 8000 (snd (CheckPort w 3000 (snd (CheckPort w 8001 s))))))
         \<and> (m \<noteq> WM_TIMER TIMER_STATUS_UPDATE \<longrightarrow>
               serviceStatus (snd (WndProc w m s)) = serviceStatus s)
         \<and> serviceStatus (HandleCommand w c s) = serviceStatus s
         \<and> serviceStatus (StartCompleteSystem w s) = serviceStatus s
         \<and> serviceStatus (StopAllServices w s) = serviceStatus s
         \<and> serviceStatus (StartIndividualService w service scriptName s) = serviceStatus s
         \<and> serviceStatus (OpenURL w url s) = serviceStatus s
         \<and> serviceStatus (snd (Initialize w s)) = serviceStatus s"
proof -
  have "probe_results w s =
      (fst (CheckPort w 8001 s), fst (CheckPort w 3000 (snd (CheckPort w 8001 s))),
       fst (CheckPort w 8000 (snd (CheckPort w 3000 (snd (CheckPort w 8001 s))))))"
    by (simp add: probe_results_def split_def Let_def)
  then show ?thesis
    by (simp add: WndProc_status [OF assms] HandleCommand_unchanged handler_eqs
        Initialize_unchanged constructed_eq process_start_def)
qed

theorem serviceStatus_written_only_by_poll_witness:
  "serviceStatus (snd (WndProc os_all_up (WM_TIMER TIMER_STATUS_UPDATE) (ready os_all_up))) =
     [''backend'' \<mapsto> True, ''frontend'' \<mapsto> True, ''system'' \<mapsto> True]
   \<and> serviceStatus (snd (WndProc os_all_up (WM_COMMAND ID_START_ALL) (ready os_all_up))) =
       [''backend'' \<mapsto> False, ''frontend'' \<mapsto> False, ''system'' \<mapsto> False]
   \<and> serviceStatus (snd (WndProc os_all_up (WM_CTLCOLORSTATIC 9 (hStatusBackend (ready os_all_up)))
          (ready os_all_up))) =
       [''backend'' \<mapsto> False, ''frontend'' \<mapsto> False, ''system'' \<mapsto> False]"
proof -
  have keys: "{''backend'', ''frontend'', ''system''} \<subseteq> dom (serviceStatus (ready os_all_up))"
    by (simp add: ready_status)
  have up: "fst (CheckPort os_all_up port s)" for port s
    by (simp add: CheckPort_eq os_all_up_def NULL_def is_response_def)
  show ?thesis
    using serviceStatus_written_only_by_poll [OF keys, of os_all_up "WM_COMMAND ID_START_ALL"]
      serviceStatus_written_only_by_poll
        [OF keys, of os_all_up "WM_CTLCOLORSTATIC 9 (hStatusBackend (ready os_all_up))"]
    by (simp add: ready_status up TIMER_STATUS_UPDATE_def) 
qed

text \<open>
  Claim C1. Start from a state with the three flags false, as the constructor leaves
  them, and with the three indicator controls distinct, and handle any messages. A colour
  request for an indicator then sets its text colour to green exactly when the most recent
  poll found the port of that service reachable, and to red otherwise, also when no poll
  has run yet. The flag the request reads is the one the poll wrote: the flags are
  the results of the most recent poll. Every poll ends by asking the three indicators to
  repaint, which brings the colour request about.
\<close>

theorem indicator_colour_follows_last_probe:
  assumes "serviceStatus s = [''backend'' \<mapsto> False, ''frontend'' \<mapsto> False, ''system'' \<mapsto> False]"
    and "distinct [hStatusBackend s, hStatusFrontend s, hStatusSystem s]"
    and "s' = run w ms s"
    and "(b, f, y) = (case last_poll w ms s of None \<Rightarrow> (False, False, False) | Some r \<Rightarrow> r)"
  shows "text_colours (calls (snd (WndProc w (WM_CTLCOLORSTATIC hdc (hStatusBackend s')) s'))) =
           text_colours (calls s') @ [(hdc, if b then GREEN else RED)]
         \<and> text_colours (calls (snd (WndProc w (WM_CTLCOLORSTATIC hdc (hStatusFrontend s')) s'))) =
             text_colours (calls s') @ [(hdc, if f then GREEN else RED)]
         \<and> text_colours (calls (snd (WndProc w (WM_CTLCOLORSTATIC hdc (hStatusSystem s')) s'))) =
             text_colours (calls s') @ [(hdc, if y then GREEN else RED)]
         \<and> serviceStatus s' = [''backend'' \<mapsto> b, ''frontend'' \<mapsto> f, ''system'' \<mapsto> y]
         \<and> invalidated (calls (snd (WndProc w (WM_TIMER TIMER_STATUS_UPDATE) s'))) =
             invalidated (calls s') @ [hStatusBackend s', hStatusFrontend s', hStatusSystem s']"
proof -
  have keys: "{''backend'', ''frontend'', ''system''} \<subseteq> dom (serviceStatus s)"
    using assms(1) by simp
  have status: "serviceStatus s' = [''backend'' \<mapsto> b, ''frontend'' \<mapsto> f, ''system'' \<mapsto> y]"
  proof (cases "last_poll w ms s")
    case None
    with assms(4) have "b = False" "f = False" "y = False"
      by simp_all
    with None show ?thesis
      by (simp add: assms(3) run_status [OF keys] assms(1))
  next
    case (Some r)
    with assms(4) have "r = (b, f, y)"
      by simp
    with Some show ?thesis
      by (simp add: assms(3) run_status [OF keys] assms(1))
  qed
  have handles: "hStatusBackend s' = hStatusBackend s" "hStatusFrontend s' = hStatusFrontend s"
    "hStatusSystem s' = hStatusSystem s"
    by (simp_all add: assms(3) run_unchanged)
  have "serviceStatus s' ''backend'' = Some b" "serviceStatus s' ''frontend'' = Some f"
    "serviceStatus s' ''system'' = Some y"
    by (simp_all add: status)
  with assms(2) handles status have
    "text_colours (calls (snd (WndProc w (WM_CTLCOLORSTATIC hdc (hStatusBackend s')) s'))) =
       text_colours (calls s') @ [(hdc, if b then GREEN else RED)]"
    "text_colours (calls (snd (WndProc w (WM_CTLCOLORSTATIC hdc (hStatusFrontend s')) s'))) =
       text_colours (calls s') @ [(hdc, if f then GREEN else RED)]"
    "text_colours (calls (snd (WndProc w (WM_CTLCOLORSTATIC hdc (hStatusSystem s')) s'))) =
       text_colours (calls s') @ [(hdc, if y then GREEN else RED)]"
    by (simp_all add: WndProc_def colour_indicator_eq)
  with status show ?thesis
    by (simp only: poll_invalidates simp_thms)
qed

theorem indicator_colour_follows_last_probe_witness:
  "text_colours (calls (snd (WndProc os_backend_only (WM_CTLCOLORSTATIC 9 116)
      (run os_backend_only [WM_TIMER TIMER_STATUS_UPDATE, WM_COMMAND ID_STOP_ALL] (ready os_backend_only))))) =
     text_colours (calls
      (run os_backend_only [WM_TIMER TIMER_STATUS_UPDATE, WM_COMMAND ID_STOP_ALL] (ready os_backend_only)))
       @ [(9, GREEN)]
   \<and> text_colours (calls (snd (WndProc os_backend_only (WM_CTLCOLORSTATIC 9 118)
      (run os_backend_only [WM_TIMER TIMER_STATUS_UPDATE, WM_COMMAND ID_STOP_ALL] (ready os_backend_only))))) =
     text_colours (calls
      (run os_backend_only [WM_TIMER TIMER_STATUS_UPDATE, WM_COMMAND ID_STOP_ALL] (ready os_backend_only)))
       @ [(9, RED)]"
proof -
  have h: "distinct [hStatusBackend (ready os_backend_only), hStatusFrontend (ready os_backend_only),
      hStatusSystem (ready os_backend_only)]"
    by (simp add: ready_backend_only_handles)
  have p: "(True, False, False) =
      (case last_poll os_backend_only [WM_TIMER TIMER_STATUS_UPDATE, WM_COMMAND ID_STOP_ALL]
              (ready os_backend_only) of
         None \<Rightarrow> (False, False, False) | Some r \<Rightarrow> r)"
    by (simp add: probe_results_def CheckPort_eq os_backend_only_def os_all_up_def NULL_def
        is_response_def health_url_def to_wstring_def digits10.simps L_def)
  show ?thesis
    using indicator_colour_follows_last_probe [OF ready_status h refl p, of 9]
    by (simp add: run_unchanged ready_backend_only_handles del: run.simps)
qed

subsection \<open>The message loop and the exit code\<close>

lemma Run_Nil: "Run w [] s = (quitPosted s, s)"
  by (subst Run.simps) (simp split: option.splits)

lemma Run_Cons:
  "Run w (m # ms) s =
     (case quitPosted s of Some code \<Rightarrow> (Some code, s) | None \<Rightarrow> Run w ms (snd (WndProc w m s)))"
  by (subst Run.simps) (simp split: option.splits)

lemma Run_exit:
  assumes "quitPosted s = None \<or> quitPosted s = Some 0"
  shows "fst (Run w ms s) = None \<or> fst (Run w ms s) = Some 0"
  using assms
proof (induction ms arbitrary: s)
  case Nil
  then show ?case by (simp add: Run_Nil)
next
  case (Cons m ms)
  show ?case
  proof (cases "quitPosted s")
    case None
    have "quitPosted (snd (WndProc w m s)) = None \<or> quitPosted (snd (WndProc w m s)) = Some 0"
      using WndProc_quitPosted [of w m s] None by auto
    then show ?thesis
      using None by (simp add: Run_Cons Cons.IH)
  next
    case (Some code)
    with Cons.prems show ?thesis by (simp add: Run_Cons)
  qed
qed

lemma WndProc_WM_DESTROY_quits: "quitPosted (snd (WndProc w WM_DESTROY s)) = Some 0"
  by (simp add: WndProc_def on_WM_DESTROY_def PostQuitMessage_def KillTimer_def)

lemma Run_quit_posted: "quitPosted s = Some code \<Longrightarrow> fst (Run w ms s) = Some code"
  by (cases ms) (simp_all add: Run_Nil Run_Cons)

lemma Run_destroy:
  assumes "WM_DESTROY \<in> set ms" and "quitPosted s = None \<or> quitPosted s = Some 0"
  shows "fst (Run w ms s) = Some 0"
  using assms
proof (induction ms arbitrary: s)
  case Nil
  then show ?case by simp
next
  case (Cons m ms)
  show ?case
  proof (cases "quitPosted s")
    case (Some code)
    with Cons.prems show ?thesis by (simp add: Run_Cons)
  next
    case None
    show ?thesis
    proof (cases "m = WM_DESTROY")
      case True
      then show ?thesis
        using None by (simp add: Run_Cons Run_quit_posted WndProc_WM_DESTROY_quits)
    next
      case False
      with Cons.prems have "WM_DESTROY \<in> set ms" by simp
      moreover have "quitPosted (snd (WndProc w m s)) = None \<or> quitPosted (snd (WndProc w m s)) = Some 0"
        using WndProc_quitPosted [of w m s] None by auto
      ultimately show ?thesis
        using None by (simp add: Run_Cons Cons.IH)
    qed
  qed
qed

lemma Run_unchanged: "processes (snd (Run w ms s)) = processes s"
proof (induction ms arbitrary: s)
  case Nil
  then show ?case by (simp add: Run_Nil)
next
  case (Cons m ms)
  then show ?case
    by (cases "quitPosted s") (simp_all add: Run_Cons WndProc_unchanged)
qed

lemma dtor_eq:
  "processes s = [] \<Longrightarrow>
   VisiFruitLauncher_dtor s =
     s\<lparr>calls := calls s @ [Call_DeleteObject (hBrushBackground s), Call_DeleteObject (hBrushGreen s),
                             Call_DeleteObject (hBrushRed s)]\<rparr>"
  by (simp add: VisiFruitLauncher_dtor_def call_def Let_def)

lemma WinMain_eq:
  "WinMain w ms =
     (if \<not> fst (Initialize w (constructed w)) then
        (Some 1, VisiFruitLauncher_dtor
                   (call (Call_MessageBox NULL MSG_INIT_FAILED (L ''Error'') MB_OK_ICONERROR) (ready w)))
      else (case fst (Run w ms (ready w)) of
              Some code \<Rightarrow> (Some code, VisiFruitLauncher_dtor (snd (Run w ms (ready w))))
            | None \<Rightarrow> (None, snd (Run w ms (ready w)))))"
  by (simp add: WinMain_def constructed_def ready_def Let_def MessageBox_def split_def
      split: option.splits prod.splits)

lemma all_up_initializes: "fst (Initialize os_all_up (constructed os_all_up))"
  by (simp add: Initialize_fst os_all_up_def NULL_def)

lemma all_down_fails: "\<not> fst (Initialize os_all_down (constructed os_all_down))"
  by (simp add: Initialize_fst os_all_down_def)

lemma all_up_close_quits: "quitPosted (snd (WndProc os_all_up WM_CLOSE s)) = Some 0"
  by (simp add: WndProc_def MessageBox_def DestroyWindow_eq os_all_up_def)

text \<open>
  Claim C9. \<open>WinMain\<close> returns 1 exactly when \<open>Initialize\<close> fails, that is when the
  window class is not registered or the main window is not created; the error box is
  shown first, then the launcher object is destroyed. When \<open>Initialize\<close> succeeds the
  exit code is that of the message loop, which is 0 whenever the loop ends, since the only
  quit message is the one \<open>WM_DESTROY\<close> posts with code 0; the loop does end with 0 once
  \<open>WM_DESTROY\<close> is among the messages. No other exit code comes out.
\<close>

theorem WinMain_exit_code:
  "fst (WinMain w ms) =
     (if fst (Initialize w (constructed w)) then fst (Run w ms (ready w)) else Some 1)
   \<and> (fst (Run w ms (ready w)) = None \<or> fst (Run w ms (ready w)) = Some 0)
   \<and> (fst (WinMain w ms) = Some 1) = (\<not> fst (Initialize w (constructed w)))
   \<and> fst (Initialize w (constructed w)) =
       (os_RegisterClassEx w (calls (constructed w)) \<noteq> 0
        \<and> os_CreateWindowEx w (calls (constructed w) @ [Call_RegisterClassEx]) \<noteq> NULL)
   \<and> (\<not> fst (Initialize w (constructed w)) \<longrightarrow>
         calls (snd (WinMain w ms)) =
           calls (ready w) @
             [Call_MessageBox NULL MSG_INIT_FAILED (L ''Error'') MB_OK_ICONERROR,
              Call_DeleteObject (hBrushBackground (ready w)), Call_DeleteObject (hBrushGreen (ready w)),
              Call_DeleteObject (hBrushRed (ready w))]
         \<and> dialogs (calls (ready w)) = [])
   \<and> (fst (Initialize w (constructed w)) \<and> WM_DESTROY \<in> set ms \<longrightarrow> fst (WinMain w ms) = Some 0)"
proof -
  have q: "quitPosted (ready w) = None \<or> quitPosted (ready w) = Some 0"
    by (simp add: ready_unchanged)
  have exit: "fst (Run w ms (ready w)) = None \<or> fst (Run w ms (ready w)) = Some 0"
    by (rule Run_exit [OF q])
  have code: "fst (WinMain w ms) =
      (if fst (Initialize w (constructed w)) then fst (Run w ms (ready w)) else Some 1)"
    by (simp add: WinMain_eq split: option.splits)
  have one: "(fst (WinMain w ms) = Some 1) = (\<not> fst (Initialize w (constructed w)))"
    using exit by (auto simp add: code)
  have fails: "calls (snd (WinMain w ms)) =
      calls (ready w) @
        [Call_MessageBox NULL MSG_INIT_FAILED (L ''Error'') MB_OK_ICONERROR,
         Call_DeleteObject (hBrushBackground (ready w)), Call_DeleteObject (hBrushGreen (ready w)),
         Call_DeleteObject (hBrushRed (ready w))]"
    if "\<not> fst (Initialize w (constructed w))"
    using that by (simp add: WinMain_eq dtor_eq call_def ready_unchanged)
  have quits: "fst (WinMain w ms) = Some 0"
    if "fst (Initialize w (constructed w))" and "WM_DESTROY \<in> set ms"
    using that Run_destroy [OF that(2) q, of w] by (simp add: code)
  show ?thesis
    using exit code one fails quits by (simp add: Initialize_fst ready_unchanged)
qed

theorem WinMain_exit_code_witness:
  "fst (WinMain os_all_down [WM_COMMAND ID_START_ALL, WM_DESTROY]) = Some 1
   \<and> dialogs (calls (snd (WinMain os_all_down [WM_COMMAND ID_START_ALL, WM_DESTROY]))) =
       [(NULL, MSG_INIT_FAILED, L ''Error'', MB_OK_ICONERROR)]
   \<and> fst (WinMain os_all_up [WM_COMMAND ID_START_ALL, WM_DESTROY]) = Some 0
   \<and> fst (WinMain os_all_up [WM_COMMAND ID_START_ALL, WM_CLOSE]) = Some 0
   \<and> fst (WinMain os_all_up [WM_COMMAND ID_START_ALL]) = None"
proof -
  let ?s1 = "snd (WndProc os_all_up (WM_COMMAND ID_START_ALL) (ready os_all_up))"
  have q1: "quitPosted ?s1 = None"
    by (simp add: WndProc_def HandleCommand_unchanged ready_unchanged)
  have "fst (WinMain os_all_down [WM_COMMAND ID_START_ALL, WM_DESTROY]) = Some 1"
    using WinMain_exit_code [of os_all_down "[WM_COMMAND ID_START_ALL, WM_DESTROY]", THEN conjunct1]
      all_down_fails
    by simp
  moreover have "dialogs (calls (snd (WinMain os_all_down [WM_COMMAND ID_START_ALL, WM_DESTROY]))) =
      [(NULL, MSG_INIT_FAILED, L ''Error'', MB_OK_ICONERROR)]"
    using WinMain_exit_code [of os_all_down "[WM_COMMAND ID_START_ALL, WM_DESTROY]",
        THEN conjunct2, THEN conjunct2, THEN conjunct2, THEN conjunct2, THEN conjunct1]
      all_down_fails
    by simp
  moreover have "fst (WinMain os_all_up [WM_COMMAND ID_START_ALL, WM_DESTROY]) = Some 0"
    using WinMain_exit_code [of os_all_up "[WM_COMMAND ID_START_ALL, WM_DESTROY]",
        THEN conjunct2, THEN conjunct2, THEN conjunct2, THEN conjunct2, THEN conjunct2]
      all_up_initializes
    by simp
  moreover have "fst (WinMain os_all_up [WM_COMMAND ID_START_ALL, WM_CLOSE]) = Some 0"
    using WinMain_exit_code [of os_all_up "[WM_COMMAND ID_START_ALL, WM_CLOSE]", THEN conjunct1]
    by (simp add: all_up_initializes Run_Cons Run_Nil ready_unchanged q1 all_up_close_quits)
  moreover have "fst (WinMain os_all_up [WM_COMMAND ID_START_ALL]) = None"
    using WinMain_exit_code [of os_all_up "[WM_COMMAND ID_START_ALL]", THEN conjunct1]
    by (simp add: all_up_initializes Run_Cons Run_Nil ready_unchanged q1)
  ultimately show ?thesis
    by simp
qed

subsection \<open>The process handles\<close>

lemma probe_calls_terminated [simp]: "terminated (probe_calls w cs port) = terminated cs"
  by (simp add: probe_calls_def CheckPort_eq)

lemma probe_calls_launches [simp]: "launches (probe_calls w cs port) = launches cs"
  by (simp add: probe_calls_def CheckPort_eq)

lemma WndProc_terminated: "terminated (calls (snd (WndProc w m s))) = terminated (calls s)"
  by (cases m)
    (simp_all add: WndProc_def HandleCommand_def HandleTimer_def handler_eqs colour_indicator_def
      map_index_def call_def Let_def MessageBox_def DestroyWindow_eq on_WM_DESTROY_def
      PostQuitMessage_def KillTimer_def DefWindowProc_def split: option.splits)

lemma Run_terminated: "terminated (calls (snd (Run w ms s))) = terminated (calls s)"
proof (induction ms arbitrary: s)
  case Nil
  then show ?case by (simp add: Run_Nil)
next
  case (Cons m ms)
  then show ?case
    by (cases "quitPosted s") (simp_all add: Run_Cons WndProc_terminated)
qed

lemma WinMain_terminates_nothing:
  "processes (snd (WinMain w ms)) = [] \<and> terminated (calls (snd (WinMain w ms))) = []"
  by (simp add: WinMain_eq dtor_eq Run_unchanged Run_terminated ready_unchanged call_def
      split: option.splits)

lemma created_handles_all_up:
  "created_handles os_all_up before cs = map (\<lambda>sei. 4242) (launches cs)"
  by (induction os_all_up before cs rule: created_handles.induct) (simp_all add: os_all_up_def)

lemma all_up_start_backend_launches:
  "launches (calls (snd (WinMain os_all_up [WM_COMMAND ID_START_BACKEND, WM_CLOSE]))) =
     [service_sei (hwnd (ready os_all_up)) (L ''start_backend.bat'')]"
proof -
  let ?s1 = "snd (WndProc os_all_up (WM_COMMAND ID_START_BACKEND) (ready os_all_up))"
  have q1: "quitPosted ?s1 = None"
    by (simp add: WndProc_def HandleCommand_unchanged ready_unchanged)
  have l1: "launches (calls ?s1) = [service_sei (hwnd (ready os_all_up)) (L ''start_backend.bat'')]"
    by (simp add: WndProc_def HandleCommand_def LOWORD_def ID_START_BACKEND_def ID_START_ALL_def
        ID_STOP_ALL_def StartIndividualService_eq ready_unchanged)
  have l2: "launches (calls (snd (WndProc os_all_up WM_CLOSE ?s1))) = launches (calls ?s1)"
    by (simp add: WndProc_def MessageBox_def DestroyWindow_eq call_def)
  have p2: "processes (snd (WndProc os_all_up WM_CLOSE ?s1)) = []"
    by (simp add: WndProc_unchanged ready_unchanged)
  show ?thesis
    by (simp add: WinMain_eq all_up_initializes Run_Cons Run_Nil ready_unchanged q1
        all_up_close_quits dtor_eq p2 l2 l1)
qed

text \<open>
  Claim C2 asks that every process handle a successful start action creates is kept in
  \<open>processes\<close> and is terminated when the launcher exits. The code keeps none: no member
  function adds to \<open>processes\<close>, so the loop of the destructor runs over an empty vector
  whatever was started (lemma \<open>WinMain_terminates_nothing\<close>). Here the backend is started,
  the launch hands out the process handle 4242, and the window is closed with Yes: the
  launcher exits with the vector empty and without a call of \<open>TerminateProcess\<close>.
\<close>

theorem start_handle_never_terminated:
  "fst (WinMain os_all_up [WM_COMMAND ID_START_BACKEND, WM_CLOSE]) = Some 0
   \<and> created_handles os_all_up []
       (calls (snd (WinMain os_all_up [WM_COMMAND ID_START_BACKEND, WM_CLOSE]))) = [4242]
   \<and> processes (snd (WinMain os_all_up [WM_COMMAND ID_START_BACKEND, WM_CLOSE])) = []
   \<and> terminated (calls (snd (WinMain os_all_up [WM_COMMAND ID_START_BACKEND, WM_CLOSE]))) = []"
proof -
  let ?s1 = "snd (WndProc os_all_up (WM_COMMAND ID_START_BACKEND) (ready os_all_up))"
  have q1: "quitPosted ?s1 = None"
    by (simp add: WndProc_def HandleCommand_unchanged ready_unchanged)
  have "fst (WinMain os_all_up [WM_COMMAND ID_START_BACKEND, WM_CLOSE]) = Some 0"
    by (simp add: WinMain_eq all_up_initializes Run_Cons Run_Nil ready_unchanged q1
        all_up_close_quits)
  then show ?thesis
    by (simp add: created_handles_all_up all_up_start_backend_launches WinMain_terminates_nothing)
qed

end
